theory Spec2Isabelle
  imports Main
begin

section \<open>JavaScript values and the environment\<close>

text \<open>
  \<^verbatim>\<open>process.env.X\<close> is a string or undefined. JavaScript treats undefined and the empty
  string as falsy: \<^verbatim>\<open>!process.env.JWT_SECRET\<close> and \<^verbatim>\<open>process.env.JWT_ISSUER || 'd'\<close>.
\<close>

definition truthy :: "string option \<Rightarrow> bool" where
  "truthy v = (case v of None \<Rightarrow> False | Some s \<Rightarrow> s \<noteq> [])"

definition js_or :: "string option \<Rightarrow> string \<Rightarrow> string" where
  "js_or v d = (case v of None \<Rightarrow> d | Some s \<Rightarrow> if s = [] then d else s)"

record env =
  JWT_SECRET :: "string option"
  JWT_REFRESH_SECRET :: "string option"
  JWT_ISSUER :: "string option"
  JWT_AUDIENCE :: "string option"

text \<open>Exceptions that the modelled code throws or catches, by their \<^verbatim>\<open>name\<close>.\<close>

datatype exn =
    TokenExpiredError
  | JsonWebTokenError
  | NotBeforeError
  | PlainError string

section \<open>The jsonwebtoken library, idealised\<close>

text \<open>
  The claims of a token as the code writes and reads them: \<^verbatim>\<open>id\<close>, \<^verbatim>\<open>type\<close>, \<^verbatim>\<open>fp\<close>,
  \<^verbatim>\<open>iat\<close>, \<^verbatim>\<open>exp\<close>, \<^verbatim>\<open>iss\<close>, \<^verbatim>\<open>aud\<close>. A claim that is absent (or undefined, which
  JSON drops) is \<open>None\<close>. Times are in seconds.
\<close>

record payload =
  p_id :: "nat option"
  p_type :: "string option"
  p_fp :: "string option"
  p_iat :: "int option"
  p_exp :: "int option"
  p_iss :: "string option"
  p_aud :: "string option"

text \<open>
  A token string on the wire is either a well-formed JWT or some other string. The HMAC
  signature is idealised: a well-formed token records the key its signature verifies
  under, so two tokens are the same string exactly when claims and key agree
  (signing with HS256 is deterministic).
\<close>

datatype jwt = Jwt payload string | Garbage string

text \<open>\<^verbatim>\<open>!token\<close>: only the empty string is falsy among strings.\<close>

fun falsy_token :: "jwt \<Rightarrow> bool" where
  "falsy_token (Garbage s) = (s = [])"
| "falsy_token (Jwt p k) = False"

text \<open>
  \<^verbatim>\<open>jwt.sign(payload, secret, {issuer, audience, expiresIn})\<close> at the library's clock
  \<open>clock\<close> (seconds): fails without a key; the timestamp is \<^verbatim>\<open>payload.iat || clock\<close>,
  it becomes \<^verbatim>\<open>iat\<close>, and \<^verbatim>\<open>exp\<close> is the timestamp plus the span; issuer and audience
  are stamped only when the option is given.
\<close>

definition jwt_sign ::
  "payload \<Rightarrow> string option \<Rightarrow> string option \<Rightarrow> string option \<Rightarrow> int \<Rightarrow> int \<Rightarrow> exn + jwt" where
  "jwt_sign p secret issuer audience expiresIn clock =
     (case secret of
        None \<Rightarrow> Inl (PlainError ''secretOrPrivateKey must have a value'')
      | Some k \<Rightarrow>
          if k = [] then Inl (PlainError ''secretOrPrivateKey must have a value'')
          else
            let timestamp = (case p_iat p of
                               None \<Rightarrow> clock
                             | Some t \<Rightarrow> if t = 0 then clock else t)
            in Inr (Jwt (p\<lparr>p_iat := Some timestamp,
                           p_exp := Some (timestamp + expiresIn),
                           p_iss := (case issuer of None \<Rightarrow> p_iss p | Some i \<Rightarrow> Some i),
                           p_aud := (case audience of None \<Rightarrow> p_aud p | Some a \<Rightarrow> Some a)\<rparr>) k))"

text \<open>
  \<^verbatim>\<open>jwt.verify(token, secret, {issuer, audience})\<close> at clock \<open>now\<close> (seconds), in the
  library's order: shape, key present, signature, expiry (\<^verbatim>\<open>now >= exp\<close>), audience,
  issuer. An option that is not given is not checked. Every failure but expiry is a
  \<^verbatim>\<open>JsonWebTokenError\<close>.
\<close>

definition jwt_verify ::
  "jwt \<Rightarrow> string option \<Rightarrow> string option \<Rightarrow> string option \<Rightarrow> int \<Rightarrow> exn + payload" where
  "jwt_verify t secret issuer audience now =
     (case t of
        Garbage s \<Rightarrow> Inl JsonWebTokenError
      | Jwt p k \<Rightarrow>
          if \<not> truthy secret then Inl JsonWebTokenError
          else if Some k \<noteq> secret then Inl JsonWebTokenError
          else if (case p_exp p of None \<Rightarrow> False | Some e \<Rightarrow> now \<ge> e) then Inl TokenExpiredError
          else if (case audience of None \<Rightarrow> False | Some a \<Rightarrow> p_aud p \<noteq> Some a)
            then Inl JsonWebTokenError
          else if (case issuer of None \<Rightarrow> False | Some i \<Rightarrow> p_iss p \<noteq> Some i)
            then Inl JsonWebTokenError
          else Inr p)"

text \<open>\<^verbatim>\<open>jwt.decode(token)\<close> reads the claims without verifying; null on a malformed string.\<close>

fun jwt_decode :: "jwt \<Rightarrow> payload option" where
  "jwt_decode (Jwt p k) = Some p"
| "jwt_decode (Garbage s) = None"

text \<open>The spans \<^verbatim>\<open>'15m'\<close>, \<^verbatim>\<open>'7d'\<close>, \<^verbatim>\<open>'30d'\<close> in seconds.\<close>

definition span_15m :: int where "span_15m = 15 * 60"
definition span_7d :: int where "span_7d = 7 * 24 * 60 * 60"
definition span_30d :: int where "span_30d = 30 * 24 * 60 * 60"

text \<open>\<^verbatim>\<open>Math.floor(Date.now() / 1000)\<close>, with \<open>now\<close> in milliseconds.\<close>

definition now_seconds :: "int \<Rightarrow> int" where
  "now_seconds now = now div 1000"

section \<open>Token codec of middleware/auth.js\<close>

text \<open>\<^verbatim>\<open>SECURITY_CONFIG.JWT.access\<close> and \<^verbatim>\<open>.refresh\<close> hold the same two constants.\<close>

definition config_issuer :: "env \<Rightarrow> string" where
  "config_issuer e = js_or (JWT_ISSUER e) ''marketsphere-api''"

definition config_audience :: "env \<Rightarrow> string" where
  "config_audience e = js_or (JWT_AUDIENCE e) ''marketsphere-app''"

definition claims_of :: "nat \<Rightarrow> string \<Rightarrow> string option \<Rightarrow> int \<Rightarrow> payload" where
  "claims_of userId ty fp now =
     \<lparr>p_id = Some userId, p_type = Some ty, p_fp = fp, p_iat = Some (now_seconds now),
      p_exp = None, p_iss = None, p_aud = None\<rparr>"

definition generateAccessToken :: "env \<Rightarrow> nat \<Rightarrow> bool \<Rightarrow> int \<Rightarrow> exn + jwt" where
  "generateAccessToken e userId remember now =
     (if \<not> truthy (JWT_SECRET e) then Inl (PlainError ''JWT_SECRET is not defined'')
      else jwt_sign (claims_of userId ''access'' None now) (JWT_SECRET e)
             (Some (config_issuer e)) (Some (config_audience e))
             (if remember then span_7d else span_15m) (now_seconds now))"

definition generateRefreshToken :: "env \<Rightarrow> nat \<Rightarrow> bool \<Rightarrow> int \<Rightarrow> exn + jwt" where
  "generateRefreshToken e userId remember now =
     (if \<not> truthy (JWT_REFRESH_SECRET e) then Inl (PlainError ''JWT_REFRESH_SECRET is not defined'')
      else jwt_sign (claims_of userId ''refresh'' None now) (JWT_REFRESH_SECRET e)
             (Some (config_issuer e)) (Some (config_audience e))
             (if remember then span_30d else span_7d) (now_seconds now))"

definition verifyToken :: "env \<Rightarrow> jwt \<Rightarrow> bool \<Rightarrow> int \<Rightarrow> exn + payload" where
  "verifyToken e t isRefresh now =
     (let secret = (if isRefresh then JWT_REFRESH_SECRET e else JWT_SECRET e) in
      if \<not> truthy secret
      then Inl (PlainError (if isRefresh then ''JWT_REFRESH_SECRET is not defined''
                            else ''JWT_SECRET is not defined''))
      else jwt_verify t secret (Some (config_issuer e)) (Some (config_audience e))
             (now_seconds now))"

section \<open>Token pair of routes/auth.js\<close>

record tokens =
  tk_accessToken :: jwt
  tk_refreshToken :: jwt

text \<open>\<^verbatim>\<open>generateTokens\<close> signs without checking the secrets itself; the library does.\<close>

definition generateTokens :: "env \<Rightarrow> nat \<Rightarrow> bool \<Rightarrow> int \<Rightarrow> exn + tokens" where
  "generateTokens e userId remember now =
     (case jwt_sign (claims_of userId ''access'' None now) (JWT_SECRET e)
             (Some (config_issuer e)) (Some (config_audience e))
             (if remember then span_7d else span_15m) (now_seconds now) of
        Inl x \<Rightarrow> Inl x
      | Inr a \<Rightarrow>
          (case jwt_sign (claims_of userId ''refresh'' None now) (JWT_REFRESH_SECRET e)
                  (Some (config_issuer e)) (Some (config_audience e))
                  (if remember then span_30d else span_7d) (now_seconds now) of
             Inl x \<Rightarrow> Inl x
           | Inr r \<Rightarrow> Inr \<lparr>tk_accessToken = a, tk_refreshToken = r\<rparr>))"

section \<open>Fingerprint codec of middleware/auth-enhanced.js\<close>

text \<open>
  \<^verbatim>\<open>generateSecureTokens\<close> passes only \<^verbatim>\<open>expiresIn\<close> to \<^verbatim>\<open>jwt.sign\<close>, and
  \<^verbatim>\<open>verifyTokenWithFingerprint\<close> passes no options to \<^verbatim>\<open>jwt.verify\<close>. The fingerprint
  argument may be undefined.
\<close>

definition generateSecureTokens :: "env \<Rightarrow> nat \<Rightarrow> bool \<Rightarrow> string option \<Rightarrow> int \<Rightarrow> exn + tokens" where
  "generateSecureTokens e userId remember fingerprint now =
     (case jwt_sign (claims_of userId ''access'' fingerprint now) (JWT_SECRET e) None None
             (if remember then span_7d else span_15m) (now_seconds now) of
        Inl x \<Rightarrow> Inl x
      | Inr a \<Rightarrow>
          (case jwt_sign (claims_of userId ''refresh'' fingerprint now) (JWT_REFRESH_SECRET e)
                  None None (if remember then span_30d else span_7d) (now_seconds now) of
             Inl x \<Rightarrow> Inl x
           | Inr r \<Rightarrow> Inr \<lparr>tk_accessToken = a, tk_refreshToken = r\<rparr>))"

definition verifyTokenWithFingerprint ::
  "env \<Rightarrow> jwt \<Rightarrow> string option \<Rightarrow> bool \<Rightarrow> int \<Rightarrow> exn + payload" where
  "verifyTokenWithFingerprint e t fingerprint isRefresh now =
     (let secret = (if isRefresh then JWT_REFRESH_SECRET e else JWT_SECRET e) in
      case jwt_verify t secret None None (now_seconds now) of
        Inl x \<Rightarrow> Inl x
      | Inr decoded \<Rightarrow>
          if p_fp decoded \<noteq> fingerprint
          then Inl (PlainError ''Token fingerprint mismatch'')
          else Inr decoded)"

section \<open>Strings\<close>

text \<open>\<^verbatim>\<open>s.includes(t)\<close>: \<open>t\<close> occurs in \<open>s\<close> as a contiguous substring.\<close>

fun starts_with :: "string \<Rightarrow> string \<Rightarrow> bool" where
  "starts_with s [] = True"
| "starts_with [] (c # t) = False"
| "starts_with (d # s) (c # t) = (d = c \<and> starts_with s t)"

fun js_includes :: "string \<Rightarrow> string \<Rightarrow> bool" where
  "js_includes [] t = (t = [])"
| "js_includes (d # s) t = (starts_with (d # s) t \<or> js_includes s t)"

section \<open>HTTP replies and the user collection\<close>

text \<open>
  A handler either answers with an error body \<^verbatim>\<open>{error, code}\<close> under a status, or
  succeeds with a value (a 200 body, or \<^verbatim>\<open>next()\<close> with what it attached).
\<close>

datatype 'a http = Fail nat string "string option" | Ok 'a

record user =
  u_id :: nat
  u_name :: string
  u_email :: string
  u_password :: string
  u_role :: string
  u_avatar :: "string option"
  u_isVerified :: bool
  u_isSuspended :: bool
  u_refreshToken :: "jwt option"
  u_googleId :: "string option"
  u_lastLogin :: "int option"
  u_lastActive :: "int option"
  u_loginCount :: nat
  u_createdAt :: "int option"

text \<open>
  The collection is the list of its documents in insertion order; \<^verbatim>\<open>findOne\<close> returns
  the first match. Failures of the database itself are not modelled.
\<close>

definition findById :: "user list \<Rightarrow> nat option \<Rightarrow> user option" where
  "findById db i = (case i of None \<Rightarrow> None | Some n \<Rightarrow> find (\<lambda>u. u_id u = n) db)"

definition findOne_email :: "user list \<Rightarrow> string \<Rightarrow> user option" where
  "findOne_email db e = find (\<lambda>u. u_email u = e) db"

text \<open>\<^verbatim>\<open>user.save()\<close> of a loaded document writes it back under its \<^verbatim>\<open>_id\<close>.\<close>

definition save :: "user \<Rightarrow> user list \<Rightarrow> user list" where
  "save u db = map (\<lambda>v. if u_id v = u_id u then u else v) db"

text \<open>\<^verbatim>\<open>.select('-password -refreshToken -otp')\<close> leaves these fields out of the result.\<close>

definition select_safe :: "user \<Rightarrow> user" where
  "select_safe u = u\<lparr>u_password := [], u_refreshToken := None\<rparr>"

record safe_user =
  su_id :: nat
  su_name :: string
  su_email :: string
  su_role :: string
  su_avatar :: "string option"
  su_isVerified :: bool
  su_createdAt :: "int option"

definition buildSafeUser :: "user \<Rightarrow> safe_user" where
  "buildSafeUser userDoc =
     \<lparr>su_id = u_id userDoc, su_name = u_name userDoc, su_email = u_email userDoc,
      su_role = u_role userDoc, su_avatar = u_avatar userDoc,
      su_isVerified = u_isVerified userDoc, su_createdAt = u_createdAt userDoc\<rparr>"

section \<open>Requests\<close>

text \<open>
  The \<^verbatim>\<open>Authorization\<close> header either starts with \<^verbatim>\<open>'Bearer '\<close> and carries the token that
  follows, or is some other string. The context attributes feed the fingerprint only.
\<close>

datatype authz = Bearer jwt | OtherAuth string

record request =
  ip :: "string option"
  user_agent :: "string option"
  accept_language :: "string option"
  authorization :: "authz option"
  cookie_accessToken :: "jwt option"

section \<open>Redis-backed token blacklist of middleware/auth.js\<close>

text \<open>
  The module state: the flag \<^verbatim>\<open>redisAvailable\<close> and the client \<^verbatim>\<open>redis\<close> (undefined until
  created). A client whose connection broke before the flag was updated makes every
  command throw. A key set with \<^verbatim>\<open>PX ms\<close> at time \<open>now\<close> (milliseconds) exists while
  the clock is before \<open>now + ms\<close>.
\<close>

record redis_client =
  rd_failing :: bool
  rd_store :: "string \<rightharpoonup> int"

record blacklist_state =
  redisAvailable :: bool
  redis :: "redis_client option"

definition redis_set :: "redis_client \<Rightarrow> string \<Rightarrow> int \<Rightarrow> int \<Rightarrow> exn + redis_client" where
  "redis_set r key px now =
     (if rd_failing r then Inl (PlainError ''Connection is closed.'')
      else Inr (r\<lparr>rd_store := (rd_store r)(key \<mapsto> now + px)\<rparr>))"

definition redis_exists :: "redis_client \<Rightarrow> string \<Rightarrow> int \<Rightarrow> exn + nat" where
  "redis_exists r key now =
     (if rd_failing r then Inl (PlainError ''Connection is closed.'')
      else Inr (case rd_store r key of
                  None \<Rightarrow> 0
                | Some expiry \<Rightarrow> if now < expiry then 1 else 0))"

definition blacklist_key :: "string \<Rightarrow> string" where
  "blacklist_key tokenHash = ''jwt-blacklist:'' @ tokenHash"

text \<open>
  \<^verbatim>\<open>addToBlacklist\<close>; \<open>sha\<close> is the SHA-256 hex digest of the token string. An absent or
  zero \<^verbatim>\<open>exp\<close> is falsy. A failing command is caught and logged.
\<close>

definition addToBlacklist :: "(jwt \<Rightarrow> string) \<Rightarrow> blacklist_state \<Rightarrow> jwt \<Rightarrow> int \<Rightarrow> blacklist_state" where
  "addToBlacklist sha st token now =
     (case redis st of
        None \<Rightarrow> st
      | Some r \<Rightarrow>
          if \<not> redisAvailable st then st
          else
            let tokenHash = sha token;
                exp = (case jwt_decode token of None \<Rightarrow> None | Some d \<Rightarrow> p_exp d)
            in if exp = None \<or> exp = Some 0
               then (case redis_set r (blacklist_key tokenHash) (5 * 60 * 1000) now of
                       Inl x \<Rightarrow> st
                     | Inr r' \<Rightarrow> st\<lparr>redis := Some r'\<rparr>)
               else
                 let nowInSeconds = now_seconds now;
                     remainingTimeMs = (the exp - nowInSeconds) * 1000
                 in if remainingTimeMs > 0
                    then (case redis_set r (blacklist_key tokenHash) remainingTimeMs now of
                            Inl x \<Rightarrow> st
                          | Inr r' \<Rightarrow> st\<lparr>redis := Some r'\<rparr>)
                    else st)"

definition isTokenBlacklisted :: "(jwt \<Rightarrow> string) \<Rightarrow> blacklist_state \<Rightarrow> jwt \<Rightarrow> int \<Rightarrow> bool" where
  "isTokenBlacklisted sha st token now =
     (case redis st of
        None \<Rightarrow> False
      | Some r \<Rightarrow>
          if \<not> redisAvailable st then False
          else (case redis_exists r (blacklist_key (sha token)) now of
                  Inl x \<Rightarrow> False
                | Inr n \<Rightarrow> n = 1))"

section \<open>The auth middleware of middleware/auth.js\<close>

definition extract_token :: "request \<Rightarrow> jwt option" where
  "extract_token req =
     (let token = (case authorization req of Some (Bearer t) \<Rightarrow> Some t | _ \<Rightarrow> None);
          token = (if (case token of None \<Rightarrow> True | Some t \<Rightarrow> falsy_token t)
                   then (case cookie_accessToken req of
                           None \<Rightarrow> token
                         | Some c \<Rightarrow> if falsy_token c then token else Some c)
                   else token)
      in case token of
           None \<Rightarrow> None
         | Some t \<Rightarrow> if falsy_token t then None else Some t)"

text \<open>The outer \<^verbatim>\<open>catch\<close> of the middleware, by the name and message of the error.\<close>

fun auth_catch :: "exn \<Rightarrow> 'a http" where
  "auth_catch TokenExpiredError = Fail 401 ''Token expired'' (Some ''TOKEN_EXPIRED'')"
| "auth_catch JsonWebTokenError = Fail 401 ''Invalid token'' (Some ''INVALID_TOKEN'')"
| "auth_catch NotBeforeError = Fail 401 ''Token not yet valid'' (Some ''TOKEN_NOT_ACTIVE'')"
| "auth_catch (PlainError msg) =
     (if js_includes msg ''is not defined''
      then Fail 500 ''Server configuration error'' (Some ''SERVER_ERROR'')
      else Fail 401 ''Authentication failed'' (Some ''AUTH_FAILED''))"

text \<open>
  The middleware over the revocation check it awaits. The check is a parameter so that
  the inner \<^verbatim>\<open>try/catch\<close> around it is a branch of the model: a check that throws leaves
  \<^verbatim>\<open>isBlacklisted\<close> false. On success the sanitised user and the raw token are attached.
\<close>

definition auth_with ::
  "(jwt \<Rightarrow> exn + bool) \<Rightarrow> env \<Rightarrow> user list \<Rightarrow> int \<Rightarrow> request \<Rightarrow> (user \<times> jwt) http" where
  "auth_with check e db now req =
     (case extract_token req of
        None \<Rightarrow> Fail 401 ''Authentication required'' (Some ''NO_TOKEN'')
      | Some token \<Rightarrow>
          let isBlacklisted = (case check token of Inl x \<Rightarrow> False | Inr b \<Rightarrow> b) in
          if isBlacklisted
          then Fail 401 ''Token has been invalidated'' (Some ''TOKEN_INVALIDATED'')
          else
            (case verifyToken e token False now of
               Inl x \<Rightarrow> auth_catch x
             | Inr decoded \<Rightarrow>
                 if p_type decoded \<noteq> Some ''access''
                 then Fail 401 ''Invalid token type'' (Some ''INVALID_TOKEN_TYPE'')
                 else
                   (case findById db (p_id decoded) of
                      None \<Rightarrow> Fail 401 ''User not found'' (Some ''USER_NOT_FOUND'')
                    | Some u \<Rightarrow>
                        if u_isSuspended u
                        then Fail 403 ''Account suspended'' (Some ''ACCOUNT_SUSPENDED'')
                        else Ok (select_safe u, token))))"

text \<open>The middleware as exported: the check is \<^verbatim>\<open>isTokenBlacklisted\<close>, which never throws.\<close>

definition auth ::
  "(jwt \<Rightarrow> string) \<Rightarrow> blacklist_state \<Rightarrow> env \<Rightarrow> user list \<Rightarrow> int \<Rightarrow> request \<Rightarrow> (user \<times> jwt) http" where
  "auth sha st e db now req =
     auth_with (\<lambda>token. Inr (isTokenBlacklisted sha st token now)) e db now req"

section \<open>Token refresh\<close>

record refresh_reply =
  rr_accessToken :: jwt
  rr_refreshToken :: jwt
  rr_expiresIn :: string

text \<open>The \<^verbatim>\<open>jwt.verify\<close> call of the refresh route, for short.\<close>

abbreviation refresh_verify :: "env \<Rightarrow> jwt \<Rightarrow> int \<Rightarrow> exn + payload" where
  "refresh_verify e t now \<equiv>
     jwt_verify t (JWT_REFRESH_SECRET e) (Some (config_issuer e)) (Some (config_audience e))
       (now_seconds now)"

text \<open>
  \<^verbatim>\<open>router.post('/refresh')\<close> of routes/auth.js, on the body fields \<^verbatim>\<open>refreshToken\<close> and
  \<^verbatim>\<open>remember\<close>. It returns the reply and the collection after the request. The handler
  runs at one clock reading \<open>now\<close> (milliseconds). A throw of \<^verbatim>\<open>generateTokens\<close> lands in
  the outer \<^verbatim>\<open>catch\<close>.
\<close>

definition refresh_route ::
  "env \<Rightarrow> user list \<Rightarrow> int \<Rightarrow> jwt option \<Rightarrow> bool \<Rightarrow> refresh_reply http \<times> user list" where
  "refresh_route e db now refreshToken remember =
     (case refreshToken of
        None \<Rightarrow> (Fail 400 ''Refresh token required'' (Some ''REFRESH_TOKEN_REQUIRED''), db)
      | Some rt \<Rightarrow>
          if falsy_token rt
          then (Fail 400 ''Refresh token required'' (Some ''REFRESH_TOKEN_REQUIRED''), db)
          else
            (case jwt_verify rt (JWT_REFRESH_SECRET e) (Some (config_issuer e))
                    (Some (config_audience e)) (now_seconds now) of
               Inl x \<Rightarrow>
                 if x = TokenExpiredError
                 then (Fail 401 ''Refresh token expired'' (Some ''REFRESH_TOKEN_EXPIRED''), db)
                 else (Fail 401 ''Invalid refresh token'' (Some ''INVALID_REFRESH_TOKEN''), db)
             | Inr decoded \<Rightarrow>
                 if p_type decoded \<noteq> Some ''refresh''
                 then (Fail 401 ''Invalid token type'' (Some ''INVALID_TOKEN_TYPE''), db)
                 else
                   (case findById db (p_id decoded) of
                      None \<Rightarrow> (Fail 401 ''User not found'' (Some ''USER_NOT_FOUND''), db)
                    | Some u \<Rightarrow>
                        if (case u_refreshToken u of None \<Rightarrow> True | Some s \<Rightarrow> falsy_token s)
                           \<or> u_refreshToken u \<noteq> Some rt
                        then (Fail 401 ''Refresh token mismatch'' (Some ''REFRESH_TOKEN_MISMATCH''), db)
                        else if u_isSuspended u
                        then (Fail 403 ''Account suspended'' (Some ''ACCOUNT_SUSPENDED''), db)
                        else
                          (case generateTokens e (u_id u) remember now of
                             Inl x \<Rightarrow> (Fail 500 ''Token refresh failed'' (Some ''REFRESH_FAILED''), db)
                           | Inr t \<Rightarrow>
                               (Ok \<lparr>rr_accessToken = tk_accessToken t,
                                    rr_refreshToken = tk_refreshToken t,
                                    rr_expiresIn = (if remember then ''7d'' else ''15m'')\<rparr>,
                                save (u\<lparr>u_refreshToken := Some (tk_refreshToken t),
                                        u_lastActive := Some now\<rparr>) db)))))"

text \<open>The helper \<^verbatim>\<open>refreshTokens\<close> of middleware/auth.js throws instead of replying.\<close>

definition refreshTokens ::
  "env \<Rightarrow> user list \<Rightarrow> int \<Rightarrow> jwt option \<Rightarrow> bool \<Rightarrow> (exn + refresh_reply) \<times> user list" where
  "refreshTokens e db now refreshToken remember =
     (case refreshToken of
        None \<Rightarrow> (Inl (PlainError ''Refresh token required''), db)
      | Some rt \<Rightarrow>
          if falsy_token rt then (Inl (PlainError ''Refresh token required''), db)
          else
            (case verifyToken e rt True now of
               Inl x \<Rightarrow> (Inl x, db)
             | Inr decoded \<Rightarrow>
                 if p_type decoded \<noteq> Some ''refresh''
                 then (Inl (PlainError ''Invalid refresh token''), db)
                 else
                   (case findById db (p_id decoded) of
                      None \<Rightarrow> (Inl (PlainError ''User not found''), db)
                    | Some u \<Rightarrow>
                        if u_refreshToken u \<noteq> Some rt
                        then (Inl (PlainError ''Refresh token mismatch''), db)
                        else if u_isSuspended u
                        then (Inl (PlainError ''Account suspended''), db)
                        else
                          (case generateAccessToken e (u_id u) remember now of
                             Inl x \<Rightarrow> (Inl x, db)
                           | Inr newAccessToken \<Rightarrow>
                               (case generateRefreshToken e (u_id u) remember now of
                                  Inl x \<Rightarrow> (Inl x, db)
                                | Inr newRefreshToken \<Rightarrow>
                                    (Inr \<lparr>rr_accessToken = newAccessToken,
                                          rr_refreshToken = newRefreshToken,
                                          rr_expiresIn = (if remember then ''7d'' else ''15m'')\<rparr>,
                                     save (u\<lparr>u_refreshToken := Some newRefreshToken,
                                             u_lastActive := Some now\<rparr>) db))))))"

section \<open>Login\<close>

text \<open>\<^verbatim>\<open>email.toLowerCase()\<close> on ASCII letters.\<close>

definition toLowerCase :: "string \<Rightarrow> string" where
  "toLowerCase s =
     map (\<lambda>c. let n = (of_char c :: nat) in if 65 \<le> n \<and> n \<le> 90 then char_of (n + 32) else c) s"

record login_reply =
  lr_user :: safe_user
  lr_tokens :: tokens
  lr_expiresIn :: string

text \<open>
  \<^verbatim>\<open>router.post('/login')\<close> of routes/auth.js. \<open>correctPassword candidate stored\<close> is the
  bcrypt comparison of the User model, which is not part of the sources at hand.
\<close>

definition login_route ::
  "(string \<Rightarrow> string \<Rightarrow> bool) \<Rightarrow> env \<Rightarrow> user list \<Rightarrow> int \<Rightarrow>
   string option \<Rightarrow> string option \<Rightarrow> bool \<Rightarrow> login_reply http \<times> user list" where
  "login_route correctPassword e db now email password remember =
     (if \<not> truthy email \<or> \<not> truthy password
      then (Fail 400 ''Email and password are required'' None, db)
      else
        (case findOne_email db (toLowerCase (the email)) of
           None \<Rightarrow> (Fail 401 ''Invalid credentials'' None, db)
         | Some u \<Rightarrow>
             if \<not> u_isVerified u
             then (Fail 401 ''Please verify your email first'' None, db)
             else if \<not> correctPassword (the password) (u_password u)
             then (Fail 401 ''Invalid credentials'' None, db)
             else
               (case generateTokens e (u_id u) remember now of
                  Inl x \<Rightarrow> (Fail 500 ''Login failed'' None, db)
                | Inr t \<Rightarrow>
                    let u' = u\<lparr>u_refreshToken := Some (tk_refreshToken t),
                               u_lastLogin := Some now,
                               u_loginCount := u_loginCount u + 1\<rparr>
                    in (Ok \<lparr>lr_user = buildSafeUser u', lr_tokens = t,
                            lr_expiresIn = (if remember then ''7d'' else ''15m'')\<rparr>,
                        save u' db))))"

text \<open>
  \<^verbatim>\<open>generateRequestFingerprint\<close>: the SHA-256 hex digest \<open>sha\<close> of the truthy components
  joined by \<^verbatim>\<open>'|'\<close>.
\<close>

fun join_bar :: "string list \<Rightarrow> string" where
  "join_bar [] = []"
| "join_bar [x] = x"
| "join_bar (x # y # ys) = x @ ''|'' @ join_bar (y # ys)"

definition generateRequestFingerprint :: "(string \<Rightarrow> string) \<Rightarrow> request \<Rightarrow> string" where
  "generateRequestFingerprint sha req =
     sha (join_bar (map the (filter truthy [ip req, user_agent req, accept_language req])))"

text \<open>
  \<^verbatim>\<open>router.post('/login')\<close> of the auth-enhanced routes; the tokens travel in cookies.
\<close>

definition login_enhanced ::
  "(string \<Rightarrow> string \<Rightarrow> bool) \<Rightarrow> (string \<Rightarrow> string) \<Rightarrow> env \<Rightarrow> user list \<Rightarrow> int \<Rightarrow> request \<Rightarrow>
   string option \<Rightarrow> string option \<Rightarrow> bool \<Rightarrow> (safe_user \<times> tokens) http \<times> user list" where
  "login_enhanced comparePassword sha e db now req email password remember =
     (if \<not> truthy email \<or> \<not> truthy password
      then (Fail 400 ''Email and password required'' (Some ''MISSING_CREDENTIALS''), db)
      else
        (case findOne_email db (toLowerCase (the email)) of
           None \<Rightarrow> (Fail 401 ''Invalid credentials'' (Some ''INVALID_CREDENTIALS''), db)
         | Some u \<Rightarrow>
             if \<not> comparePassword (the password) (u_password u)
             then (Fail 401 ''Invalid credentials'' (Some ''INVALID_CREDENTIALS''), db)
             else if u_isSuspended u
             then (Fail 403 ''Account suspended'' (Some ''ACCOUNT_SUSPENDED''), db)
             else
               (case generateSecureTokens e (u_id u) remember
                       (Some (generateRequestFingerprint sha req)) now of
                  Inl x \<Rightarrow> (Fail 500 ''Login failed'' (Some ''LOGIN_ERROR''), db)
                | Inr t \<Rightarrow>
                    let u' = u\<lparr>u_refreshToken := Some (tk_refreshToken t),
                               u_lastLogin := Some now,
                               u_loginCount := u_loginCount u + 1\<rparr>
                    in (Ok (buildSafeUser u', t), save u' db))))"

section \<open>The in-memory blacklist (class MemoryBlacklist)\<close>

text \<open>
  \<^verbatim>\<open>this.tokens\<close> maps the hash of a token to \<^verbatim>\<open>expiresAt\<close> in milliseconds. The clock
  \<^verbatim>\<open>Date.now()\<close> is the argument \<open>now\<close>; \<open>hashToken\<close> is the SHA-256 hex digest. The
  numbers are integers (a \<^verbatim>\<open>ttl\<close> that is not a number is not modelled). \<^verbatim>\<open>!expiresAt\<close>
  holds for a missing entry and for the value 0.
\<close>

type_synonym memory_blacklist = "string \<rightharpoonup> int"

definition mb_add ::
  "(jwt \<Rightarrow> string) \<Rightarrow> memory_blacklist \<Rightarrow> jwt \<Rightarrow> int \<Rightarrow> int \<Rightarrow> bool \<times> memory_blacklist" where
  "mb_add hashToken tokens token ttl now =
     (let expiresAt = now + ttl; tokenHash = hashToken token
      in (True, tokens(tokenHash \<mapsto> expiresAt)))"

definition mb_has ::
  "(jwt \<Rightarrow> string) \<Rightarrow> memory_blacklist \<Rightarrow> jwt \<Rightarrow> int \<Rightarrow> bool \<times> memory_blacklist" where
  "mb_has hashToken tokens token now =
     (let tokenHash = hashToken token in
      case tokens tokenHash of
        None \<Rightarrow> (False, tokens)
      | Some expiresAt \<Rightarrow>
          if expiresAt = 0 then (False, tokens)
          else if now > expiresAt then (False, tokens(tokenHash := None))
          else (True, tokens))"

definition mb_cleanup :: "memory_blacklist \<Rightarrow> int \<Rightarrow> memory_blacklist" where
  "mb_cleanup tokens now =
     (\<lambda>tokenHash. case tokens tokenHash of
                     None \<Rightarrow> None
                   | Some expiresAt \<Rightarrow> if now > expiresAt then None else Some expiresAt)"

text \<open>A history of calls on the singleton, each with the clock reading it runs at.\<close>

datatype mb_call = Add jwt int | Has jwt | Cleanup

fun mb_step :: "(jwt \<Rightarrow> string) \<Rightarrow> memory_blacklist \<Rightarrow> int \<times> mb_call \<Rightarrow> memory_blacklist" where
  "mb_step h tokens (now, Add token ttl) = snd (mb_add h tokens token ttl now)"
| "mb_step h tokens (now, Has token) = snd (mb_has h tokens token now)"
| "mb_step h tokens (now, Cleanup) = mb_cleanup tokens now"

definition mb_run ::
  "(jwt \<Rightarrow> string) \<Rightarrow> memory_blacklist \<Rightarrow> (int \<times> mb_call) list \<Rightarrow> memory_blacklist" where
  "mb_run h tokens calls = foldl (mb_step h) tokens calls"

fun adds_hash :: "(jwt \<Rightarrow> string) \<Rightarrow> string \<Rightarrow> int \<times> mb_call \<Rightarrow> bool" where
  "adds_hash h k (now, Add token ttl) = (h token = k)"
| "adds_hash h k (now, Has token) = False"
| "adds_hash h k (now, Cleanup) = False"

section \<open>The client: refresh coordinator of the AuthProvider\<close>

text \<open>
  \<^verbatim>\<open>refreshAccessToken\<close> runs on the single JavaScript thread: from its entry to the
  \<^verbatim>\<open>await axios.post('/api/auth/refresh')\<close> nothing else runs, and again from the
  response to its return. So its behaviour is a transition system over the two refs
  \<^verbatim>\<open>isRefreshing\<close> and \<^verbatim>\<open>failedQueue\<close>, the token storage, and the refresh requests
  that await their response. Callers are numbered. The log \<open>settled\<close> records how the
  promise each caller awaits was settled: resolved with a token or null, or rejected.
\<close>

datatype settlement = Resolved "string option" | Rejected string

record coordinator =
  isRefreshing :: bool
  failedQueue :: "nat list"
  in_flight :: "(nat \<times> string \<times> bool) list"
  refresh_calls :: nat
  logout_calls :: nat
  stored_access :: "string option"
  stored_refresh :: "string option"
  stored_remember :: bool
  settled :: "(nat \<times> settlement) list"

text \<open>
  The response of the refresh request: a 2xx body with its \<^verbatim>\<open>accessToken\<close> and
  \<^verbatim>\<open>refreshToken\<close> fields, or a rejection (any other status, or no response).
\<close>

datatype response = Success "string option" "string option" | Failure string

text \<open>
  What can happen between two runs of \<^verbatim>\<open>refreshAccessToken\<close>: a caller enters it, the
  response of the refresh request arrives, a started logout finishes, or another
  function of the provider (login, logout, profile fetch) rewrites the token storage.
\<close>

datatype event =
    Call nat
  | Settle response
  | LogoutSettles
  | Stored "string option" "string option" bool

definition processQueue :: "string option \<Rightarrow> string option \<Rightarrow> coordinator \<Rightarrow> coordinator" where
  "processQueue error token s =
     s\<lparr>settled := settled s @
          map (\<lambda>prom. (prom, case error of Some err \<Rightarrow> Rejected err | None \<Rightarrow> Resolved token))
              (failedQueue s),
       failedQueue := []\<rparr>"

text \<open>
  A caller enters \<^verbatim>\<open>refreshAccessToken\<close>. While a refresh is running it is queued.
  Otherwise the flag is raised and, if a refresh token is stored, the one request is
  sent; without a stored token \<^verbatim>\<open>logout()\<close> is started (it posts to the logout
  endpoint and clears the storage once that settles) and the caller gets null.
\<close>

definition call :: "nat \<Rightarrow> coordinator \<Rightarrow> coordinator" where
  "call c s =
     (if isRefreshing s then s\<lparr>failedQueue := failedQueue s @ [c]\<rparr>
      else
        let s1 = s\<lparr>isRefreshing := True\<rparr> in
        if \<not> truthy (stored_refresh s1)
        then
          let s2 = s1\<lparr>logout_calls := logout_calls s1 + 1\<rparr>;
              s3 = s2\<lparr>isRefreshing := False\<rparr>;
              s4 = processQueue (Some ''No refresh token available.'') None s3
          in s4\<lparr>settled := settled s4 @ [(c, Resolved None)]\<rparr>
        else
          s1\<lparr>in_flight := in_flight s1 @ [(c, the (stored_refresh s1), stored_remember s1)],
             refresh_calls := refresh_calls s1 + 1\<rparr>)"

text \<open>
  The response to the oldest request in flight arrives and the rest of
  \<^verbatim>\<open>refreshAccessToken\<close> runs for the caller that sent it.
\<close>

definition settle :: "response \<Rightarrow> coordinator \<Rightarrow> coordinator" where
  "settle resp s =
     (case in_flight s of
        [] \<Rightarrow> s
      | (c, refreshToken, remember) # rest \<Rightarrow>
          let s0 = s\<lparr>in_flight := rest\<rparr> in
          (case resp of
             Success accessToken newRefresh \<Rightarrow>
               if truthy accessToken
               then
                 let s1 = s0\<lparr>stored_access := accessToken,
                            stored_refresh := Some (js_or newRefresh refreshToken),
                            stored_remember := remember\<rparr>;
                     s2 = processQueue None accessToken s1;
                     s3 = s2\<lparr>isRefreshing := False\<rparr>
                 in s3\<lparr>settled := settled s3 @ [(c, Resolved accessToken)]\<rparr>
               else
                 let s1 = s0\<lparr>isRefreshing := False\<rparr>;
                     s2 = processQueue (Some ''Refresh token was invalid.'') None s1
                 in s2\<lparr>settled := settled s2 @ [(c, Resolved None)]\<rparr>
           | Failure err \<Rightarrow>
               let s1 = s0\<lparr>stored_access := None, stored_refresh := None,
                          stored_remember := False\<rparr>;
                   s2 = processQueue (Some err) None s1;
                   s3 = s2\<lparr>isRefreshing := False\<rparr>
               in s3\<lparr>settled := settled s3 @ [(c, Resolved None)]\<rparr>))"

definition logout_settles :: "coordinator \<Rightarrow> coordinator" where
  "logout_settles s =
     (if logout_calls s = 0 then s
      else s\<lparr>logout_calls := logout_calls s - 1, stored_access := None,
             stored_refresh := None, stored_remember := False\<rparr>)"

fun step :: "coordinator \<Rightarrow> event \<Rightarrow> coordinator" where
  "step s (Call c) = call c s"
| "step s (Settle resp) = settle resp s"
| "step s LogoutSettles = logout_settles s"
| "step s (Stored access refresh remember) =
     s\<lparr>stored_access := access, stored_refresh := refresh, stored_remember := remember\<rparr>"

definition run :: "coordinator \<Rightarrow> event list \<Rightarrow> coordinator" where
  "run s evs = foldl step s evs"

text \<open>The coordinator when the provider mounts, with whatever the storage holds.\<close>

definition initial :: "string option \<Rightarrow> string option \<Rightarrow> bool \<Rightarrow> coordinator" where
  "initial access refresh remember =
     \<lparr>isRefreshing = False, failedQueue = [], in_flight = [], refresh_calls = 0,
      logout_calls = 0, stored_access = access, stored_refresh = refresh,
      stored_remember = remember, settled = []\<rparr>"

section \<open>The client: response interceptor\<close>

record request_config =
  rc_url :: string
  rc_retry :: bool
  rc_authorization :: "string option"

definition isExcludedPath :: "string \<Rightarrow> bool" where
  "isExcludedPath url =
     (js_includes url ''/logout'' \<or> js_includes url ''/login'' \<or>
      js_includes url ''/refresh'' \<or> js_includes url ''/payment/intent'')"

text \<open>
  The rejection handler of the interceptor, on the status of \<^verbatim>\<open>err.response\<close> (if any)
  and \<^verbatim>\<open>err.config\<close>. \<open>refreshed\<close> is how \<^verbatim>\<open>await refreshAccessToken()\<close> settles if it is
  called. The result says whether \<^verbatim>\<open>refreshAccessToken\<close> was called, and either the
  request that is sent again or that the error is passed on.
\<close>

datatype outcome = Retry request_config | RejectError

definition on_rejected :: "nat option \<Rightarrow> request_config \<Rightarrow> settlement \<Rightarrow> bool \<times> outcome" where
  "on_rejected status originalRequest refreshed =
     (if status = Some 401
      then
        if \<not> rc_retry originalRequest \<and> \<not> isExcludedPath (rc_url originalRequest)
        then
          let req = originalRequest\<lparr>rc_retry := True\<rparr> in
          (case refreshed of
             Resolved newAccess \<Rightarrow>
               if truthy newAccess
               then (True, Retry (req\<lparr>rc_authorization := Some (''Bearer '' @ the newAccess)\<rparr>))
               else (True, RejectError)
           | Rejected refreshError \<Rightarrow> (True, RejectError))
        else (False, RejectError)
      else (False, RejectError))"

text \<open>
  What holds of the coordinator between any two events: while the flag is up exactly one
  request is in flight; while it is down none is and nobody waits.
\<close>

definition coord_inv :: "coordinator \<Rightarrow> bool" where
  "coord_inv s =
     (if isRefreshing s then length (in_flight s) = 1
      else in_flight s = [] \<and> failedQueue s = [])"

section \<open>Google login of routes/auth.js\<close>

text \<open>
  The verified payload of the Google ID token. The User schema is not among the sources
  at hand, so what it decides is a parameter: whether \<^verbatim>\<open>email\<close> carries a unique index,
  and the default \<^verbatim>\<open>role\<close>.
\<close>

record google_payload =
  gp_email :: "string option"
  gp_email_verified :: bool
  gp_name :: "string option"
  gp_sub :: string
  gp_picture :: "string option"

record user_schema =
  email_unique :: bool
  default_role :: string

definition fresh_id :: "user list \<Rightarrow> nat" where
  "fresh_id db = Suc (foldr max (map u_id db) 0)"

text \<open>Saving a new document; a unique index on \<^verbatim>\<open>email\<close> rejects a second one.\<close>

definition insert_user :: "bool \<Rightarrow> user \<Rightarrow> user list \<Rightarrow> exn + user list" where
  "insert_user unique u db =
     (if unique \<and> findOne_email db (u_email u) \<noteq> None
      then Inl (PlainError ''E11000 duplicate key error'')
      else Inr (db @ [u]))"

definition findByIdAndUpdate :: "nat \<Rightarrow> jwt \<Rightarrow> int \<Rightarrow> user list \<Rightarrow> user list" where
  "findByIdAndUpdate i t now db =
     map (\<lambda>v. if u_id v = i then v\<lparr>u_refreshToken := Some t, u_lastActive := Some now\<rparr> else v) db"

text \<open>
  \<^verbatim>\<open>router.post('/google')\<close> after \<^verbatim>\<open>ticket.getPayload()\<close>. The handler gives up the
  thread at each \<^verbatim>\<open>await\<close>; what runs between two of them is one step. The control
  points are: before \<^verbatim>\<open>await User.findOne({ email })\<close>; before \<^verbatim>\<open>await user.save()\<close>,
  holding the result of the lookup; before \<^verbatim>\<open>await User.findByIdAndUpdate\<close>; and
  replied. \<open>randomPassword\<close> is \<^verbatim>\<open>crypto.randomBytes(32).toString('hex')\<close>.
\<close>

datatype google_pc =
    G_find
  | G_write "user option"
  | G_store user bool
  | G_done "(safe_user \<times> tokens \<times> bool) http"

definition google_step ::
  "user_schema \<Rightarrow> string \<Rightarrow> env \<Rightarrow> int \<Rightarrow> google_payload \<Rightarrow> bool \<Rightarrow>
   google_pc \<times> user list \<Rightarrow> google_pc \<times> user list" where
  "google_step sc randomPassword e now payload remember st =
     (case st of (pc, db) \<Rightarrow>
        (case pc of
           G_find \<Rightarrow>
             if \<not> truthy (gp_email payload)
             then (G_done (Fail 400 ''Google token missing email'' None), db)
             else (G_write (findOne_email db (toLowerCase (the (gp_email payload)))), db)
         | G_write None \<Rightarrow>
             let user = \<lparr>u_id = fresh_id db, u_name = js_or (gp_name payload) [],
                         u_email = toLowerCase (the (gp_email payload)),
                         u_password = randomPassword, u_role = default_role sc,
                         u_avatar = gp_picture payload, u_isVerified = True,
                         u_isSuspended = False, u_refreshToken = None,
                         u_googleId = Some (gp_sub payload), u_lastLogin = Some now,
                         u_lastActive = None, u_loginCount = 1, u_createdAt = None\<rparr>
             in (case insert_user (email_unique sc) user db of
                   Inl x \<Rightarrow> (G_done (Fail 500 ''Google login failed'' None), db)
                 | Inr db' \<Rightarrow> (G_store user True, db'))
         | G_write (Some u) \<Rightarrow>
             let u' = u\<lparr>u_googleId := (if truthy (u_googleId u) then u_googleId u
                                         else Some (gp_sub payload)),
                        u_avatar := (if truthy (gp_picture payload) then gp_picture payload
                                     else u_avatar u),
                        u_lastLogin := Some now,
                        u_loginCount := u_loginCount u + 1,
                        u_isVerified := True\<rparr>
             in (G_store u' False, save u' db)
         | G_store u isNewUser \<Rightarrow>
             (case generateTokens e (u_id u) remember now of
                Inl x \<Rightarrow> (G_done (Fail 500 ''Google login failed'' None), db)
              | Inr t \<Rightarrow>
                  (G_done (Ok (buildSafeUser u, t, isNewUser)),
                   findByIdAndUpdate (u_id u) (tk_refreshToken t) now db))
         | G_done r \<Rightarrow> (G_done r, db)))"

text \<open>
  Two requests in progress on the one thread: the schedule says which of them runs its
  next step (\<open>True\<close> for the first).
\<close>

fun interleave ::
  "('p \<times> user list \<Rightarrow> 'p \<times> user list) \<Rightarrow> ('p \<times> user list \<Rightarrow> 'p \<times> user list) \<Rightarrow>
   bool list \<Rightarrow> 'p \<times> 'p \<times> user list \<Rightarrow> 'p \<times> 'p \<times> user list" where
  "interleave stepA stepB [] s = s"
| "interleave stepA stepB (turn # sched) (a, b, db) =
     (if turn
      then (case stepA (a, db) of (a', db') \<Rightarrow> interleave stepA stepB sched (a', b, db'))
      else (case stepB (b, db) of (b', db') \<Rightarrow> interleave stepA stepB sched (a, b', db')))"

section \<open>Google login helper of middleware/auth.js\<close>

text \<open>\<^verbatim>\<open>name.trim()\<close> on the ASCII white space characters.\<close>

definition is_space :: "char \<Rightarrow> bool" where
  "is_space c = (let n = (of_char c :: nat) in n = 32 \<or> (9 \<le> n \<and> n \<le> 13))"

definition js_trim :: "string \<Rightarrow> string" where
  "js_trim s = rev (dropWhile is_space (rev (dropWhile is_space s)))"

definition findOne_googleId :: "user list \<Rightarrow> string \<Rightarrow> user option" where
  "findOne_googleId db g = find (\<lambda>u. u_googleId u = Some g) db"

text \<open>
  \<^verbatim>\<open>googleLogin\<close> after \<^verbatim>\<open>ticket.getPayload()\<close>, one step per \<^verbatim>\<open>await\<close>. The control
  points are: before \<^verbatim>\<open>await User.findOne({ email })\<close>; before
  \<^verbatim>\<open>await User.startSession()\<close>; in the transaction callback, before
  \<^verbatim>\<open>await User.findOne({ googleId })\<close> (which is not given the session, so it is an
  ordinary read); before \<^verbatim>\<open>await User.create(.., { session })\<close> or
  \<^verbatim>\<open>await user.save({ session })\<close>, after which the transaction commits; before
  \<^verbatim>\<open>await User.findByIdAndUpdate\<close>; and returned or thrown. When the email lookup found
  a user the callback reaches the save without an \<^verbatim>\<open>await\<close> in between.
\<close>

datatype login_pc =
    L_find
  | L_session "user option"
  | L_lookup "user option"
  | L_write "user option"
  | L_store user bool
  | L_done "exn + (safe_user \<times> tokens \<times> bool)"

definition googleLogin_write ::
  "user_schema \<Rightarrow> string \<Rightarrow> int \<Rightarrow> string \<Rightarrow> string option \<Rightarrow> string \<Rightarrow> string option \<Rightarrow>
   user option \<Rightarrow> user list \<Rightarrow> login_pc \<times> user list" where
  "googleLogin_write sc randomPassword now email name googleId picture found db =
     (case found of
        None \<Rightarrow>
          (case name of
             None \<Rightarrow> (L_done (Inl (PlainError ''Cannot read properties of undefined'')), db)
           | Some n \<Rightarrow>
               let user = \<lparr>u_id = fresh_id db, u_name = js_trim n,
                           u_email = toLowerCase email,
                           u_password = randomPassword, u_role = default_role sc,
                           u_avatar = picture, u_isVerified = True,
                           u_isSuspended = False, u_refreshToken = None,
                           u_googleId = Some googleId, u_lastLogin = Some now,
                           u_lastActive = None, u_loginCount = 1, u_createdAt = None\<rparr>
               in (case insert_user (email_unique sc) user db of
                     Inl x \<Rightarrow> (L_done (Inl x), db)
                   | Inr db' \<Rightarrow> (L_store user True, db')))
      | Some u \<Rightarrow>
          let u' = u\<lparr>u_googleId := Some googleId, u_avatar := picture,
                     u_lastLogin := Some now, u_loginCount := u_loginCount u + 1,
                     u_isVerified := True\<rparr>
          in (L_store u' False, save u' db))"

definition googleLogin_step ::
  "user_schema \<Rightarrow> string \<Rightarrow> env \<Rightarrow> int \<Rightarrow> google_payload \<Rightarrow> bool \<Rightarrow>
   login_pc \<times> user list \<Rightarrow> login_pc \<times> user list" where
  "googleLogin_step sc randomPassword e now payload remember st =
     (case st of (pc, db) \<Rightarrow>
        (case pc of
           L_find \<Rightarrow>
             if \<not> gp_email_verified payload
             then (L_done (Inl (PlainError ''Google email not verified'')), db)
             else (case gp_email payload of
                     None \<Rightarrow> (L_done (Inl (PlainError ''Cannot read properties of undefined'')), db)
                   | Some email \<Rightarrow> (L_session (findOne_email db (toLowerCase email)), db))
         | L_session found \<Rightarrow> (L_lookup found, db)
         | L_lookup None \<Rightarrow> (L_write (findOne_googleId db (gp_sub payload)), db)
         | L_lookup (Some u) \<Rightarrow>
             googleLogin_write sc randomPassword now (the (gp_email payload)) (gp_name payload)
               (gp_sub payload) (gp_picture payload) (Some u) db
         | L_write found \<Rightarrow>
             googleLogin_write sc randomPassword now (the (gp_email payload)) (gp_name payload)
               (gp_sub payload) (gp_picture payload) found db
         | L_store u createdUser \<Rightarrow>
             (case generateAccessToken e (u_id u) remember now of
                Inl x \<Rightarrow> (L_done (Inl x), db)
              | Inr accessToken \<Rightarrow>
                  (case generateRefreshToken e (u_id u) remember now of
                     Inl x \<Rightarrow> (L_done (Inl x), db)
                   | Inr refreshToken \<Rightarrow>
                       (L_done (Inr (buildSafeUser u,
                                     \<lparr>tk_accessToken = accessToken,
                                      tk_refreshToken = refreshToken\<rparr>, createdUser)),
                        findByIdAndUpdate (u_id u) refreshToken now db)))
         | L_done r \<Rightarrow> (L_done r, db)))"

section \<open>Sample data\<close>

definition sample_env :: env where
  "sample_env = \<lparr>JWT_SECRET = Some ''access-key'', JWT_REFRESH_SECRET = Some ''refresh-key'',
                  JWT_ISSUER = None, JWT_AUDIENCE = None\<rparr>"

definition sample_access_claims :: payload where
  "sample_access_claims =
     \<lparr>p_id = Some 7, p_type = Some ''access'', p_fp = None, p_iat = Some 1700000000,
      p_exp = Some 1700000900, p_iss = Some ''marketsphere-api'',
      p_aud = Some ''marketsphere-app''\<rparr>"

definition sample_access_token :: jwt where
  "sample_access_token = Jwt sample_access_claims ''access-key''"

definition sample_refresh_token :: jwt where
  "sample_refresh_token =
     Jwt \<lparr>p_id = Some 7, p_type = Some ''refresh'', p_fp = None, p_iat = Some 1700000000,
          p_exp = Some 1700604800, p_iss = Some ''marketsphere-api'',
          p_aud = Some ''marketsphere-app''\<rparr> ''refresh-key''"

definition sample_user :: user where
  "sample_user =
     \<lparr>u_id = 7, u_name = ''Ada'', u_email = ''ada@x.com'', u_password = ''hash-of-correct'',
      u_role = ''user'', u_avatar = None, u_isVerified = True, u_isSuspended = False,
      u_refreshToken = Some sample_refresh_token, u_googleId = None,
      u_lastLogin = Some 1700000000000, u_lastActive = None, u_loginCount = 1,
      u_createdAt = Some 1600000000000\<rparr>"

definition sample_request :: request where
  "sample_request =
     \<lparr>ip = Some ''10.0.0.1'', user_agent = Some ''Mozilla'', accept_language = Some ''en'',
      authorization = Some (Bearer sample_access_token), cookie_accessToken = None\<rparr>"

definition sample_sha :: "jwt \<Rightarrow> string" where
  "sample_sha t = (case t of Jwt p k \<Rightarrow> ''j'' @ k | Garbage g \<Rightarrow> ''g'' @ g)"

definition sample_bound_token :: jwt where
  "sample_bound_token = Jwt (sample_access_claims\<lparr>p_fp := Some ''fp-phone''\<rparr>) ''access-key''"

definition sample_new_access :: jwt where
  "sample_new_access =
     Jwt \<lparr>p_id = Some 7, p_type = Some ''access'', p_fp = None, p_iat = Some 1700000050,
          p_exp = Some 1700604850, p_iss = Some ''marketsphere-api'',
          p_aud = Some ''marketsphere-app''\<rparr> ''access-key''"

definition sample_new_refresh :: jwt where
  "sample_new_refresh =
     Jwt \<lparr>p_id = Some 7, p_type = Some ''refresh'', p_fp = None, p_iat = Some 1700000050,
          p_exp = Some 1702592050, p_iss = Some ''marketsphere-api'',
          p_aud = Some ''marketsphere-app''\<rparr> ''refresh-key''"

definition sample_db_rotated :: "user list" where
  "sample_db_rotated =
     [sample_user\<lparr>u_refreshToken := Some sample_new_refresh, u_lastActive := Some 1700000050000\<rparr>]"

definition sample_secure_access :: jwt where
  "sample_secure_access =
     Jwt \<lparr>p_id = Some 7, p_type = Some ''access'', p_fp = Some ''fp-phone'',
          p_iat = Some 1700000000, p_exp = Some 1700000900, p_iss = None, p_aud = None\<rparr>
       ''access-key''"

definition sample_secure_refresh :: jwt where
  "sample_secure_refresh =
     Jwt \<lparr>p_id = Some 7, p_type = Some ''refresh'', p_fp = Some ''fp-phone'',
          p_iat = Some 1700000000, p_exp = Some 1700604800, p_iss = None, p_aud = None\<rparr>
       ''refresh-key''"

definition sample_foreign_claims :: payload where
  "sample_foreign_claims =
     \<lparr>p_id = Some 7, p_type = Some ''access'', p_fp = Some ''fp-phone'',
      p_iat = Some 1700000000, p_exp = Some 1700000900, p_iss = Some ''another-api'',
      p_aud = Some ''another-app''\<rparr>"

definition sample_payment_request :: request_config where
  "sample_payment_request =
     \<lparr>rc_url = ''/api/payment/create-order'', rc_retry = False,
      rc_authorization = Some ''Bearer old''\<rparr>"

definition sample_compare :: "string \<Rightarrow> string \<Rightarrow> bool" where
  "sample_compare candidate stored = (stored = ''hash-of-'' @ candidate)"

definition sample_unverified :: user where
  "sample_unverified = sample_user\<lparr>u_isVerified := False\<rparr>"

definition sample_suspended :: user where
  "sample_suspended = sample_user\<lparr>u_isSuspended := True\<rparr>"

definition sample_redis :: blacklist_state where
  "sample_redis =
     \<lparr>redisAvailable = True, redis = Some \<lparr>rd_failing = False, rd_store = Map.empty\<rparr>\<rparr>"

definition sample_calls :: "(int \<times> mb_call) list" where
  "sample_calls =
     [(1700000001000, Has sample_access_token), (1700000002000, Cleanup),
      (1700000003000, Add (Garbage ''other'') 5), (1700000004000, Has (Garbage ''other''))]"

definition sample_payload :: google_payload where
  "sample_payload =
     \<lparr>gp_email = Some ''New@X.com'', gp_email_verified = True, gp_name = Some ''Nia'',
      gp_sub = ''g-123'', gp_picture = None\<rparr>"

definition sample_google ::
  "bool \<Rightarrow> string \<Rightarrow> google_pc \<times> user list \<Rightarrow> google_pc \<times> user list" where
  "sample_google unique randomPassword =
     google_step \<lparr>email_unique = unique, default_role = ''user''\<rparr> randomPassword sample_env
       1700000100000 sample_payload False"

fun replied_new :: "google_pc \<Rightarrow> bool" where
  "replied_new (G_done (Ok (u, t, isNewUser))) = isNewUser"
| "replied_new pc = False"

fun replied_status :: "google_pc \<Rightarrow> nat" where
  "replied_status (G_done (Ok r)) = 200"
| "replied_status (G_done (Fail s m c)) = s"
| "replied_status pc = 0"

definition sample_googleLogin ::
  "bool \<Rightarrow> string \<Rightarrow> login_pc \<times> user list \<Rightarrow> login_pc \<times> user list" where
  "sample_googleLogin unique randomPassword =
     googleLogin_step \<lparr>email_unique = unique, default_role = ''user''\<rparr> randomPassword
       sample_env 1700000100000 sample_payload False"

fun returned_new :: "login_pc \<Rightarrow> bool" where
  "returned_new (L_done (Inr (u, t, createdUser))) = createdUser"
| "returned_new pc = False"

fun returned :: "login_pc \<Rightarrow> bool" where
  "returned (L_done (Inr r)) = True"
| "returned pc = False"

fun thrown :: "login_pc \<Rightarrow> bool" where
  "thrown (L_done (Inl x)) = True"
| "thrown pc = False"

definition sample_refresh_claims :: payload where
  "sample_refresh_claims =
     \<lparr>p_id = Some 7, p_type = Some ''refresh'', p_fp = None, p_iat = Some 1700000000,
      p_exp = Some 1700604800, p_iss = Some ''marketsphere-api'',
      p_aud = Some ''marketsphere-app''\<rparr>"

definition sample_wrong_type_token :: jwt where
  "sample_wrong_type_token = Jwt (sample_refresh_claims\<lparr>p_type := Some ''access''\<rparr>) ''refresh-key''"

definition sample_unknown_user_token :: jwt where
  "sample_unknown_user_token = Jwt (sample_refresh_claims\<lparr>p_id := Some 8\<rparr>) ''refresh-key''"

definition sample_rotated_reply :: refresh_reply where
  "sample_rotated_reply =
     \<lparr>rr_accessToken = sample_new_access, rr_refreshToken = sample_new_refresh,
      rr_expiresIn = ''7d''\<rparr>"

section \<open>Properties of the token codec\<close>

lemma generateAccessToken_ok:
  assumes "truthy (JWT_SECRET e)"
  shows "generateAccessToken e userId remember now =
     Inr (Jwt \<lparr>p_id = Some userId, p_type = Some ''access'', p_fp = None,
               p_iat = Some (now_seconds now),
               p_exp = Some (now_seconds now + (if remember then span_7d else span_15m)),
               p_iss = Some (config_issuer e), p_aud = Some (config_audience e)\<rparr>
            (the (JWT_SECRET e)))"
  using assms
  by (auto simp: generateAccessToken_def jwt_sign_def claims_of_def truthy_def Let_def
           split: option.splits)

lemma verifyToken_Inr:
  "verifyToken e t isRefresh now = Inr d \<Longrightarrow>
   \<exists>k. t = Jwt d k \<and> Some k = (if isRefresh then JWT_REFRESH_SECRET e else JWT_SECRET e)
     \<and> (\<forall>x. p_exp d = Some x \<longrightarrow> now_seconds now < x)
     \<and> p_iss d = Some (config_issuer e) \<and> p_aud d = Some (config_audience e)"
  by (auto simp: verifyToken_def jwt_verify_def Let_def split: if_splits jwt.splits option.splits)

lemma auth_catch_not_Ok [simp]: "auth_catch x \<noteq> Ok y"
  by (cases x) auto

lemma auth_with_Ok:
  "auth_with check e db now req = Ok (u, tok) \<Longrightarrow>
   extract_token req = Some tok \<and>
   (\<exists>d. verifyToken e tok False now = Inr d \<and> p_type d = Some ''access'')"
  by (auto simp: auth_with_def Let_def split: option.splits sum.splits if_splits exn.splits)

lemma verify_minted_access:
  assumes "truthy (JWT_SECRET e)"
      and "generateAccessToken e userId remember now = Inr t"
      and "now_seconds now' < now_seconds now + (if remember then span_7d else span_15m)"
  shows "\<exists>d. verifyToken e t False now' = Inr d \<and> p_id d = Some userId \<and> p_type d = Some ''access''"
  using assms unfolding generateAccessToken_ok [OF assms(1)]
  by (auto simp: verifyToken_def jwt_verify_def truthy_def Let_def split: option.splits)

lemma verify_minted_access_wrong_secret:
  assumes "truthy (JWT_SECRET e)" and "JWT_REFRESH_SECRET e \<noteq> JWT_SECRET e"
      and "generateAccessToken e userId remember now = Inr t"
  shows "\<exists>x. verifyToken e t True now' = Inl x"
  using assms unfolding generateAccessToken_ok [OF assms(1)]
  by (auto simp: verifyToken_def jwt_verify_def truthy_def Let_def split: option.splits)

lemma generateTokens_access:
  assumes "generateTokens e userId remember now = Inr ts"
  shows "generateAccessToken e userId remember now = Inr (tk_accessToken ts)"
  using assms
  by (auto simp: generateTokens_def generateAccessToken_def jwt_sign_def truthy_def
           split: sum.splits option.splits if_splits)

lemma auth_rejects_other_type:
  assumes "extract_token req = Some tok" and "jwt_decode tok = Some d"
      and "p_type d \<noteq> Some ''access''"
  shows "\<exists>s m c. auth_with check e db now req = Fail s m c"
proof (cases "auth_with check e db now req")
  case (Fail s m c)
  then show ?thesis by blast
next
  case (Ok r)
  obtain u tok' where r: "r = (u, tok')" by (cases r)
  from auth_with_Ok [of check e db now req u tok'] Ok r
  obtain d' where "tok' = tok" "verifyToken e tok False now = Inr d'" "p_type d' = Some ''access''"
    using assms(1) by auto
  with verifyToken_Inr [of e tok False now d'] assms(2,3) show ?thesis by auto
qed

lemma refresh_route_Ok:
  assumes "refresh_route e db now (Some tok) r = (Ok ok, db')"
  shows "\<exists>d k u. tok = Jwt d k \<and> p_type d = Some ''refresh'' \<and> findById db (p_id d) = Some u \<and>
           u_refreshToken u = Some tok \<and> \<not> u_isSuspended u"
  using assms
  by (auto simp: refresh_route_def jwt_verify_def split: if_splits sum.splits option.splits jwt.splits)

lemma refresh_route_rejects_other_type:
  assumes "jwt_decode tok = Some d" and "p_type d \<noteq> Some ''refresh''"
  shows "\<exists>s m c. refresh_route e db now (Some tok) r = (Fail s m c, db)"
  using assms
  by (cases tok)
     (auto simp: refresh_route_def jwt_verify_def split: if_splits sum.splits option.splits)

text \<open>
  C3. With the access secret set and the refresh secret different from it, for every
  subject id and either expiry profile: \<^verbatim>\<open>generateAccessToken\<close> mints a token (the one
  \<^verbatim>\<open>generateTokens\<close> pairs as access token) that \<^verbatim>\<open>verifyToken\<close> decodes, at any clock
  before the expiry of the profile, to the same subject id and the type \<^verbatim>\<open>'access'\<close>;
  verifying that token under the refresh secret fails at every clock; the auth middleware
  rejects every presented token whose embedded type is not \<^verbatim>\<open>'access'\<close>, and the refresh
  endpoint rejects every presented token whose embedded type is not \<^verbatim>\<open>'refresh'\<close>.
\<close>

theorem access_token_roundtrip:
  assumes "truthy (JWT_SECRET e)" and "JWT_REFRESH_SECRET e \<noteq> JWT_SECRET e"
  shows "\<exists>t. generateAccessToken e userId remember now = Inr t \<and>
           (\<forall>ts. generateTokens e userId remember now = Inr ts \<longrightarrow> tk_accessToken ts = t) \<and>
           (\<forall>now'. now_seconds now' < now_seconds now + (if remember then span_7d else span_15m) \<longrightarrow>
              (\<exists>d. verifyToken e t False now' = Inr d \<and> p_id d = Some userId \<and>
                    p_type d = Some ''access'')) \<and>
           (\<forall>now'. \<exists>x. verifyToken e t True now' = Inl x) \<and>
           (\<forall>req tok d check db now'.
              extract_token req = Some tok \<and> jwt_decode tok = Some d \<and> p_type d \<noteq> Some ''access'' \<longrightarrow>
              (\<exists>s m c. auth_with check e db now' req = Fail s m c)) \<and>
           (\<forall>tok d db now' r.
              jwt_decode tok = Some d \<and> p_type d \<noteq> Some ''refresh'' \<longrightarrow>
              (\<exists>s m c. refresh_route e db now' (Some tok) r = (Fail s m c, db)))"
proof -
  obtain t where t: "generateAccessToken e userId remember now = Inr t"
    using generateAccessToken_ok [OF assms(1)] by blast
  have a: "\<forall>ts. generateTokens e userId remember now = Inr ts \<longrightarrow> tk_accessToken ts = t"
    using generateTokens_access t by fastforce
  have b: "\<forall>now'. now_seconds now' < now_seconds now + (if remember then span_7d else span_15m) \<longrightarrow>
              (\<exists>d. verifyToken e t False now' = Inr d \<and> p_id d = Some userId \<and>
                    p_type d = Some ''access'')"
    using verify_minted_access [OF assms(1) t] by blast
  have c: "\<forall>now'. \<exists>x. verifyToken e t True now' = Inl x"
    using verify_minted_access_wrong_secret [OF assms t] by blast
  have d: "\<forall>req tok d check db now'.
              extract_token req = Some tok \<and> jwt_decode tok = Some d \<and> p_type d \<noteq> Some ''access'' \<longrightarrow>
              (\<exists>s m c. auth_with check e db now' req = Fail s m c)"
    using auth_rejects_other_type by blast
  have f: "\<forall>tok d db now' r.
              jwt_decode tok = Some d \<and> p_type d \<noteq> Some ''refresh'' \<longrightarrow>
              (\<exists>s m c. refresh_route e db now' (Some tok) r = (Fail s m c, db))"
    using refresh_route_rejects_other_type by blast
  from t a b c d f show ?thesis by blast
qed

theorem access_token_roundtrip_witness:
  "truthy (JWT_SECRET sample_env) \<and> JWT_REFRESH_SECRET sample_env \<noteq> JWT_SECRET sample_env \<and>
   (\<exists>t. generateAccessToken sample_env 7 False 1700000000000 = Inr t \<and>
        (\<exists>d. verifyToken sample_env t False 1700000899999 = Inr d \<and> p_id d = Some 7 \<and>
              p_type d = Some ''access'') \<and>
        (\<exists>x. verifyToken sample_env t True 1700000899999 = Inl x))"
proof -
  have h1: "truthy (JWT_SECRET sample_env)" by (simp add: sample_env_def truthy_def)
  have h2: "JWT_REFRESH_SECRET sample_env \<noteq> JWT_SECRET sample_env" by (simp add: sample_env_def)
  have h3: "now_seconds 1700000899999 < now_seconds 1700000000000 + (if False then span_7d else span_15m)"
    by (simp add: now_seconds_def span_15m_def)
  from access_token_roundtrip [OF h1 h2, of 7 False 1700000000000] h1 h2 h3
  show ?thesis by blast
qed

section \<open>Properties of the request gate\<close>

lemma isTokenBlacklisted_fail_open:
  assumes "redis st = None \<or> \<not> redisAvailable st \<or> (\<exists>r. redis st = Some r \<and> rd_failing r)"
  shows "isTokenBlacklisted sha st token now = False"
  using assms
  by (auto simp: isTokenBlacklisted_def redis_exists_def split: option.splits)

lemma auth_with_check_throws:
  assumes "\<forall>t. \<exists>x. check t = Inl x"
  shows "auth_with check e db now req = auth_with (\<lambda>t. Inr False) e db now req"
proof (cases "extract_token req")
  case None
  then show ?thesis by (simp add: auth_with_def)
next
  case (Some token)
  from assms obtain x where "check token = Inl x" by blast
  with Some show ?thesis by (simp add: auth_with_def)
qed

lemma auth_store_down:
  assumes "redis st = None \<or> \<not> redisAvailable st \<or> (\<exists>r. redis st = Some r \<and> rd_failing r)"
  shows "auth sha st e db now req = auth_with (\<lambda>t. Inr False) e db now req"
  unfolding auth_def
  by (simp add: isTokenBlacklisted_fail_open [OF assms])

lemma auth_with_accepts:
  assumes "extract_token req = Some token"
      and "verifyToken e token False now = Inr d" and "p_type d = Some ''access''"
      and "findById db (p_id d) = Some u" and "\<not> u_isSuspended u"
  shows "auth_with (\<lambda>t. Inr False) e db now req = Ok (select_safe u, token)"
  using assms by (simp add: auth_with_def)

lemma extract_token_ignores_context:
  "extract_token (req\<lparr>ip := a, user_agent := b, accept_language := c\<rparr>) = extract_token req"
  by (simp add: extract_token_def Let_def cong: if_cong)

lemma verifyTokenWithFingerprint_binds:
  assumes "jwt_verify t (if isRefresh then JWT_REFRESH_SECRET e else JWT_SECRET e) None None
             (now_seconds now) = Inr d"
  shows "verifyTokenWithFingerprint e t fingerprint isRefresh now =
           (if p_fp d \<noteq> fingerprint then Inl (PlainError ''Token fingerprint mismatch'') else Inr d)"
  using assms by (simp add: verifyTokenWithFingerprint_def Let_def)

lemma sample_extract: "extract_token sample_request = Some sample_access_token"
  by (simp add: extract_token_def sample_request_def sample_access_token_def)

lemma sample_verify:
  "verifyToken sample_env sample_access_token False 1700000100000 = Inr sample_access_claims"
  by (simp add: verifyToken_def jwt_verify_def sample_env_def sample_access_token_def truthy_def
        sample_access_claims_def config_issuer_def config_audience_def js_or_def now_seconds_def)

lemma sample_find: "findById [sample_user] (p_id sample_access_claims) = Some sample_user"
  by (simp add: findById_def sample_user_def sample_access_claims_def)

text \<open>
  C6. When the Redis client is missing, flagged unavailable, or its command throws,
  \<^verbatim>\<open>isTokenBlacklisted\<close> returns false, and the middleware decides as if no token were
  blacklisted; a revocation check that throws inside the middleware is caught and the
  middleware likewise decides as if no token were blacklisted. In that case a token
  that verifies as an access token of an existing, unsuspended user is accepted.
\<close>

theorem revocation_check_fails_open:
  "(redis st = None \<or> \<not> redisAvailable st \<or> (\<exists>r. redis st = Some r \<and> rd_failing r) \<longrightarrow>
      isTokenBlacklisted sha st token now = False \<and>
      auth sha st e db now req = auth_with (\<lambda>t. Inr False) e db now req) \<and>
   ((\<forall>t. \<exists>x. check t = Inl x) \<longrightarrow>
      auth_with check e db now req = auth_with (\<lambda>t. Inr False) e db now req) \<and>
   (extract_token req = Some token \<and> verifyToken e token False now = Inr d \<and>
    p_type d = Some ''access'' \<and> findById db (p_id d) = Some u \<and> \<not> u_isSuspended u \<longrightarrow>
      auth_with (\<lambda>t. Inr False) e db now req = Ok (select_safe u, token))"
  using isTokenBlacklisted_fail_open [of st sha token now] auth_store_down [of st sha e db now req]
    auth_with_check_throws [of check e db now req] auth_with_accepts [of req token e now d db u]
  by blast

theorem revocation_check_fails_open_witness:
  "redis \<lparr>redisAvailable = True, redis = Some \<lparr>rd_failing = True, rd_store = Map.empty\<rparr>\<rparr>
     = Some \<lparr>rd_failing = True, rd_store = Map.empty\<rparr> \<and>
   rd_failing \<lparr>rd_failing = True, rd_store = Map.empty\<rparr> \<and>
   isTokenBlacklisted sample_sha
     \<lparr>redisAvailable = True, redis = Some \<lparr>rd_failing = True, rd_store = Map.empty\<rparr>\<rparr>
     sample_access_token 1700000100000 = False \<and>
   auth sample_sha
     \<lparr>redisAvailable = True, redis = Some \<lparr>rd_failing = True, rd_store = Map.empty\<rparr>\<rparr>
     sample_env [sample_user] 1700000100000 sample_request
     = Ok (select_safe sample_user, sample_access_token) \<and>
   auth_with (\<lambda>t. Inl (PlainError ''boom'')) sample_env [sample_user] 1700000100000 sample_request
     = Ok (select_safe sample_user, sample_access_token)"
proof -
  let ?st = "\<lparr>redisAvailable = True, redis = Some \<lparr>rd_failing = True, rd_store = Map.empty\<rparr>\<rparr>"
  let ?check = "\<lambda>t::jwt. Inl (PlainError ''boom'') :: exn + bool"
  have h0: "redis ?st = Some \<lparr>rd_failing = True, rd_store = Map.empty\<rparr>"
    and h0': "rd_failing \<lparr>rd_failing = True, rd_store = Map.empty\<rparr>"
    by simp_all
  have h1: "redis ?st = None \<or> \<not> redisAvailable ?st \<or> (\<exists>r. redis ?st = Some r \<and> rd_failing r)"
    by simp
  have h2: "\<forall>t. \<exists>x. ?check t = Inl x" by simp
  have h3: "extract_token sample_request = Some sample_access_token \<and>
    verifyToken sample_env sample_access_token False 1700000100000 = Inr sample_access_claims \<and>
    p_type sample_access_claims = Some ''access'' \<and>
    findById [sample_user] (p_id sample_access_claims) = Some sample_user \<and>
    \<not> u_isSuspended sample_user"
    using sample_extract sample_verify sample_find
    by (simp add: sample_user_def sample_access_claims_def)
  note t = revocation_check_fails_open [where st = ?st and sha = sample_sha
         and token = sample_access_token and now = 1700000100000 and e = sample_env
         and db = "[sample_user]" and req = sample_request
         and check = ?check and u = sample_user and d = sample_access_claims]
  from t h1 have a: "isTokenBlacklisted sample_sha ?st sample_access_token 1700000100000 = False"
    and b: "auth sample_sha ?st sample_env [sample_user] 1700000100000 sample_request
            = auth_with (\<lambda>t. Inr False) sample_env [sample_user] 1700000100000 sample_request"
    by blast+
  from t h2 have c: "auth_with ?check sample_env [sample_user] 1700000100000 sample_request
            = auth_with (\<lambda>t. Inr False) sample_env [sample_user] 1700000100000 sample_request"
    by blast
  from t h3 have d: "auth_with (\<lambda>t. Inr False) sample_env [sample_user] 1700000100000 sample_request
            = Ok (select_safe sample_user, sample_access_token)"
    by blast
  from h0 h0' a b c d show ?thesis by (simp only: simp_thms)
qed

text \<open>
  C10. The middleware's decision does not depend on the client address, the user-agent
  or the accepted language of the request, whatever fingerprint the token carries:
  \<^verbatim>\<open>verifyToken\<close> passes the \<^verbatim>\<open>fp\<close> claim through without reading it. The binding is
  enforced by \<^verbatim>\<open>verifyTokenWithFingerprint\<close> alone, which rejects a token that verifies
  under the key but carries another fingerprint than the one given.
\<close>

theorem gate_ignores_fingerprint:
  "auth sha st e db now (req\<lparr>ip := a, user_agent := b, accept_language := c\<rparr>)
     = auth sha st e db now req \<and>
   verifyToken e (Jwt (p\<lparr>p_fp := f\<rparr>) k) isRefresh now =
     map_sum id (\<lambda>d. d\<lparr>p_fp := f\<rparr>) (verifyToken e (Jwt p k) isRefresh now) \<and>
   (jwt_verify t (if isRefresh then JWT_REFRESH_SECRET e else JWT_SECRET e) None None
      (now_seconds now) = Inr d \<and> p_fp d \<noteq> fingerprint \<longrightarrow>
    verifyTokenWithFingerprint e t fingerprint isRefresh now =
      Inl (PlainError ''Token fingerprint mismatch''))"
proof -
  have 1: "auth sha st e db now (req\<lparr>ip := a, user_agent := b, accept_language := c\<rparr>)
             = auth sha st e db now req"
    unfolding auth_def auth_with_def extract_token_ignores_context ..
  have 2: "verifyToken e (Jwt (p\<lparr>p_fp := f\<rparr>) k) isRefresh now =
             map_sum id (\<lambda>d. d\<lparr>p_fp := f\<rparr>) (verifyToken e (Jwt p k) isRefresh now)"
    by (simp add: verifyToken_def jwt_verify_def Let_def)
  from 1 2 verifyTokenWithFingerprint_binds [of t isRefresh e now d fingerprint]
  show ?thesis by simp
qed

theorem gate_ignores_fingerprint_witness:
  "jwt_verify sample_bound_token (if False then JWT_REFRESH_SECRET sample_env else JWT_SECRET sample_env)
      None None (now_seconds 1700000100000) = Inr (sample_access_claims\<lparr>p_fp := Some ''fp-phone''\<rparr>) \<and>
   p_fp (sample_access_claims\<lparr>p_fp := Some ''fp-phone''\<rparr>) \<noteq> Some ''fp-laptop'' \<and>
   verifyTokenWithFingerprint sample_env sample_bound_token (Some ''fp-laptop'') False 1700000100000 =
     Inl (PlainError ''Token fingerprint mismatch'') \<and>
   auth sample_sha \<lparr>redisAvailable = False, redis = None\<rparr> sample_env [sample_user] 1700000100000
     (sample_request\<lparr>ip := Some ''10.9.9.9'', user_agent := None, accept_language := Some ''fr''\<rparr>)
     = auth sample_sha \<lparr>redisAvailable = False, redis = None\<rparr> sample_env [sample_user]
         1700000100000 sample_request"
proof -
  have h1: "jwt_verify sample_bound_token
      (if False then JWT_REFRESH_SECRET sample_env else JWT_SECRET sample_env)
      None None (now_seconds 1700000100000) = Inr (sample_access_claims\<lparr>p_fp := Some ''fp-phone''\<rparr>)"
    by (simp add: jwt_verify_def sample_bound_token_def sample_env_def truthy_def
          sample_access_claims_def now_seconds_def)
  have h2: "p_fp (sample_access_claims\<lparr>p_fp := Some ''fp-phone''\<rparr>) \<noteq> Some ''fp-laptop''"
    by simp
  note t = gate_ignores_fingerprint [where e = sample_env and t = sample_bound_token
      and isRefresh = False and now = 1700000100000 and fingerprint = "Some ''fp-laptop''"
      and d = "sample_access_claims\<lparr>p_fp := Some ''fp-phone''\<rparr>"
      and sha = sample_sha and st = "\<lparr>redisAvailable = False, redis = None\<rparr>"
      and db = "[sample_user]" and req = sample_request
      and a = "Some ''10.9.9.9''" and b = None and c = "Some ''fr''"]
  from t h1 h2 show ?thesis by blast
qed

section \<open>Properties of the refresh coordinator\<close>

lemma coord_inv_initial: "coord_inv (initial a r m)"
  by (simp add: coord_inv_def initial_def)

lemma coord_inv_call: "coord_inv s \<Longrightarrow> coord_inv (call c s)"
  by (auto simp: coord_inv_def call_def processQueue_def Let_def split: if_splits)

lemma coord_inv_settle: "coord_inv s \<Longrightarrow> coord_inv (settle resp s)"
  by (auto simp: coord_inv_def settle_def processQueue_def Let_def
           split: if_splits list.splits response.splits prod.splits)

lemma coord_inv_logout: "coord_inv s \<Longrightarrow> coord_inv (logout_settles s)"
  by (auto simp: coord_inv_def logout_settles_def split: if_splits)

lemma coord_inv_stored:
  "coord_inv s \<Longrightarrow>
   coord_inv (s\<lparr>stored_access := a, stored_refresh := r, stored_remember := m\<rparr>)"
  by (simp add: coord_inv_def)

lemma coord_inv_step: "coord_inv s \<Longrightarrow> coord_inv (step s ev)"
  by (cases ev)
     (simp_all add: coord_inv_call coord_inv_settle coord_inv_logout coord_inv_stored)

lemma coord_inv_run: "coord_inv s \<Longrightarrow> coord_inv (run s evs)"
  unfolding run_def by (induction evs arbitrary: s) (simp_all add: coord_inv_step)

lemma call_while_in_flight:
  assumes "coord_inv s" and "in_flight s \<noteq> []"
  shows "call c s = s\<lparr>failedQueue := failedQueue s @ [c]\<rparr>"
  using assms by (auto simp: coord_inv_def call_def split: if_splits)

lemma settle_success:
  assumes "coord_inv s" and "in_flight s \<noteq> []" and "truthy tok"
  shows "\<exists>c rt m. in_flight s = [(c, rt, m)] \<and>
           \<not> isRefreshing (settle (Success tok newr) s) \<and>
           in_flight (settle (Success tok newr) s) = [] \<and>
           failedQueue (settle (Success tok newr) s) = [] \<and>
           refresh_calls (settle (Success tok newr) s) = refresh_calls s \<and>
           settled (settle (Success tok newr) s) =
             settled s @ map (\<lambda>q. (q, Resolved tok)) (failedQueue s) @ [(c, Resolved tok)]"
  using assms
  by (cases "in_flight s")
     (auto simp: coord_inv_def settle_def processQueue_def Let_def split: if_splits)

lemma settle_failure:
  assumes "coord_inv s" and "in_flight s \<noteq> []"
  shows "\<exists>c rt m. in_flight s = [(c, rt, m)] \<and>
           \<not> isRefreshing (settle (Failure err) s) \<and>
           in_flight (settle (Failure err) s) = [] \<and>
           failedQueue (settle (Failure err) s) = [] \<and>
           refresh_calls (settle (Failure err) s) = refresh_calls s \<and>
           settled (settle (Failure err) s) =
             settled s @ map (\<lambda>q. (q, Rejected err)) (failedQueue s) @ [(c, Resolved None)]"
  using assms
  by (cases "in_flight s")
     (auto simp: coord_inv_def settle_def processQueue_def Let_def split: if_splits)

lemma settle_no_token:
  assumes "coord_inv s" and "in_flight s \<noteq> []" and "\<not> truthy tok"
  shows "\<exists>c rt m. in_flight s = [(c, rt, m)] \<and>
           \<not> isRefreshing (settle (Success tok newr) s) \<and>
           in_flight (settle (Success tok newr) s) = [] \<and>
           failedQueue (settle (Success tok newr) s) = [] \<and>
           refresh_calls (settle (Success tok newr) s) = refresh_calls s \<and>
           settled (settle (Success tok newr) s) =
             settled s @ map (\<lambda>q. (q, Rejected ''Refresh token was invalid.'')) (failedQueue s)
               @ [(c, Resolved None)]"
  using assms
  by (cases "in_flight s")
     (auto simp: coord_inv_def settle_def processQueue_def Let_def split: if_splits)

lemma run_calls_in_flight:
  assumes "in_flight s \<noteq> []" and "coord_inv s"
  shows "run s (map Call cs) = s\<lparr>failedQueue := failedQueue s @ cs\<rparr>"
  using assms
proof (induction cs arbitrary: s)
  case Nil
  then show ?case by (simp add: run_def)
next
  case (Cons c cs)
  have 1: "call c s = s\<lparr>failedQueue := failedQueue s @ [c]\<rparr>"
    using call_while_in_flight Cons.prems by blast
  have 2: "in_flight (call c s) \<noteq> []"
    using Cons.prems(1) 1 by simp
  have 3: "coord_inv (call c s)"
    using Cons.prems(2) by (rule coord_inv_call)
  from Cons.IH [OF 2 3] 1 show ?case by (simp add: run_def)
qed

lemma parallel_calls_one_refresh:
  assumes "truthy r"
  shows "run (initial a r m) (map Call (c # cs)) =
           (initial a r m)\<lparr>isRefreshing := True, in_flight := [(c, the r, m)],
                            refresh_calls := 1, failedQueue := cs\<rparr>"
proof -
  have 1: "call c (initial a r m) =
      (initial a r m)\<lparr>isRefreshing := True, in_flight := [(c, the r, m)], refresh_calls := 1\<rparr>"
    using assms by (simp add: call_def initial_def Let_def)
  have 2: "in_flight (call c (initial a r m)) \<noteq> []" using 1 by simp
  have 3: "coord_inv (call c (initial a r m))" by (simp add: coord_inv_call coord_inv_initial)
  have "run (initial a r m) (map Call (c # cs)) = run (call c (initial a r m)) (map Call cs)"
    by (simp add: run_def)
  also have "\<dots> = (call c (initial a r m))\<lparr>failedQueue := failedQueue (call c (initial a r m)) @ cs\<rparr>"
    using run_calls_in_flight [OF 2 3] .
  finally show ?thesis using 1 by (simp add: initial_def)
qed


text \<open>
  C2. In every state the coordinator reaches from its initial state, by any sequence of
  callers entering, responses arriving, logouts settling and writes to the token storage,
  at most one refresh request is in flight. While one is in flight, each further caller
  is appended to the queue and nothing else changes (no request is sent). When the
  response arrives the flag is
  lowered, nothing is in flight, the queue is empty, and every queued caller has been
  resolved with the new access token (response with a token), or rejected (response
  without a token, or failed request); the caller that sent the request gets the token,
  or null. Any number of callers entering an idle coordinator with a stored refresh
  token cause exactly one request.
\<close>

theorem single_flight_refresh:
  assumes "s = run (initial a r m) evs"
  shows "length (in_flight s) \<le> 1 \<and>
    (in_flight s \<noteq> [] \<longrightarrow>
       (\<forall>c. call c s = s\<lparr>failedQueue := failedQueue s @ [c]\<rparr>) \<and>
       (\<forall>cs. run s (map Call cs) = s\<lparr>failedQueue := failedQueue s @ cs\<rparr>) \<and>
       (\<exists>c0 rt rm. in_flight s = [(c0, rt, rm)] \<and>
          (\<forall>tok newr. truthy tok \<longrightarrow>
             \<not> isRefreshing (settle (Success tok newr) s) \<and>
             in_flight (settle (Success tok newr) s) = [] \<and>
             failedQueue (settle (Success tok newr) s) = [] \<and>
             refresh_calls (settle (Success tok newr) s) = refresh_calls s \<and>
             settled (settle (Success tok newr) s) =
               settled s @ map (\<lambda>q. (q, Resolved tok)) (failedQueue s) @ [(c0, Resolved tok)]) \<and>
          (\<forall>tok newr. \<not> truthy tok \<longrightarrow>
             \<not> isRefreshing (settle (Success tok newr) s) \<and>
             in_flight (settle (Success tok newr) s) = [] \<and>
             failedQueue (settle (Success tok newr) s) = [] \<and>
             refresh_calls (settle (Success tok newr) s) = refresh_calls s \<and>
             settled (settle (Success tok newr) s) =
               settled s @ map (\<lambda>q. (q, Rejected ''Refresh token was invalid.'')) (failedQueue s)
                 @ [(c0, Resolved None)]) \<and>
          (\<forall>err.
             \<not> isRefreshing (settle (Failure err) s) \<and>
             in_flight (settle (Failure err) s) = [] \<and>
             failedQueue (settle (Failure err) s) = [] \<and>
             refresh_calls (settle (Failure err) s) = refresh_calls s \<and>
             settled (settle (Failure err) s) =
               settled s @ map (\<lambda>q. (q, Rejected err)) (failedQueue s) @ [(c0, Resolved None)]))) \<and>
    (truthy r \<longrightarrow>
       (\<forall>c cs. run (initial a r m) (map Call (c # cs)) =
          (initial a r m)\<lparr>isRefreshing := True, in_flight := [(c, the r, m)],
                           refresh_calls := 1, failedQueue := cs\<rparr>))"
proof -
  have inv: "coord_inv s"
    unfolding assms by (rule coord_inv_run) (rule coord_inv_initial)
  have one: "length (in_flight s) \<le> 1"
    using inv by (auto simp: coord_inv_def split: if_splits)
  have par: "truthy r \<longrightarrow>
       (\<forall>c cs. run (initial a r m) (map Call (c # cs)) =
          (initial a r m)\<lparr>isRefreshing := True, in_flight := [(c, the r, m)],
                           refresh_calls := 1, failedQueue := cs\<rparr>)"
    using parallel_calls_one_refresh by blast
  show ?thesis
  proof (cases "in_flight s = []")
    case True
    with one par show ?thesis by simp
  next
    case False
    obtain c0 rt rm where fl: "in_flight s = [(c0, rt, rm)]"
      using inv False by (cases "in_flight s") (auto simp: coord_inv_def split: if_splits)
    have q: "\<forall>c. call c s = s\<lparr>failedQueue := failedQueue s @ [c]\<rparr>"
      using call_while_in_flight [OF inv False] by blast
    have qs: "\<forall>cs. run s (map Call cs) = s\<lparr>failedQueue := failedQueue s @ cs\<rparr>"
      using run_calls_in_flight [OF False inv] by blast
    have ok: "\<forall>tok newr. truthy tok \<longrightarrow>
             \<not> isRefreshing (settle (Success tok newr) s) \<and>
             in_flight (settle (Success tok newr) s) = [] \<and>
             failedQueue (settle (Success tok newr) s) = [] \<and>
             refresh_calls (settle (Success tok newr) s) = refresh_calls s \<and>
             settled (settle (Success tok newr) s) =
               settled s @ map (\<lambda>q. (q, Resolved tok)) (failedQueue s) @ [(c0, Resolved tok)]"
      using settle_success [OF inv False] fl by fastforce
    have nt: "\<forall>tok newr. \<not> truthy tok \<longrightarrow>
             \<not> isRefreshing (settle (Success tok newr) s) \<and>
             in_flight (settle (Success tok newr) s) = [] \<and>
             failedQueue (settle (Success tok newr) s) = [] \<and>
             refresh_calls (settle (Success tok newr) s) = refresh_calls s \<and>
             settled (settle (Success tok newr) s) =
               settled s @ map (\<lambda>q. (q, Rejected ''Refresh token was invalid.'')) (failedQueue s)
                 @ [(c0, Resolved None)]"
      using settle_no_token [OF inv False] fl by fastforce
    have ko: "\<forall>err.
             \<not> isRefreshing (settle (Failure err) s) \<and>
             in_flight (settle (Failure err) s) = [] \<and>
             failedQueue (settle (Failure err) s) = [] \<and>
             refresh_calls (settle (Failure err) s) = refresh_calls s \<and>
             settled (settle (Failure err) s) =
               settled s @ map (\<lambda>q. (q, Rejected err)) (failedQueue s) @ [(c0, Resolved None)]"
      using settle_failure [OF inv False] fl by fastforce
    from one par fl q qs ok nt ko show ?thesis by blast
  qed
qed


theorem single_flight_refresh_witness:
  "truthy (Some ''r0'') \<and> truthy (Some ''a1'') \<and>
   in_flight (run (initial (Some ''a0'') (Some ''r0'') False) [Call 1, Call 2, Call 3])
     = [(1, ''r0'', False)] \<and>
   refresh_calls (run (initial (Some ''a0'') (Some ''r0'') False) [Call 1, Call 2, Call 3]) = 1 \<and>
   failedQueue (run (initial (Some ''a0'') (Some ''r0'') False) [Call 1, Call 2, Call 3]) = [2, 3] \<and>
   settled (settle (Success (Some ''a1'') (Some ''r1''))
              (run (initial (Some ''a0'') (Some ''r0'') False) [Call 1, Call 2, Call 3]))
     = [(2, Resolved (Some ''a1'')), (3, Resolved (Some ''a1'')), (1, Resolved (Some ''a1''))] \<and>
   \<not> isRefreshing (settle (Success (Some ''a1'') (Some ''r1''))
              (run (initial (Some ''a0'') (Some ''r0'') False) [Call 1, Call 2, Call 3])) \<and>
   settled (settle (Failure ''401'')
              (run (initial (Some ''a0'') (Some ''r0'') False) [Call 1, Call 2, Call 3]))
     = [(2, Rejected ''401''), (3, Rejected ''401''), (1, Resolved None)] \<and>
   \<not> isRefreshing (settle (Failure ''401'')
              (run (initial (Some ''a0'') (Some ''r0'') False) [Call 1, Call 2, Call 3]))"
proof -
  let ?i = "initial (Some ''a0'') (Some ''r0'') False"
  let ?s = "run ?i [Call 1, Call 2, Call 3]"
  have h1: "truthy (Some ''r0'')" and h2: "truthy (Some ''a1'')"
    by (simp_all add: truthy_def)
  note t = single_flight_refresh [where s = ?s and a = "Some ''a0''" and r = "Some ''r0''"
              and m = False and evs = "[Call 1, Call 2, Call 3]", OF refl]
  from t h1 have "run ?i (map Call (1 # [2, 3])) =
      ?i\<lparr>isRefreshing := True, in_flight := [(1, the (Some ''r0''), False)],
          refresh_calls := 1, failedQueue := [2, 3]\<rparr>"
    by blast
  then have e: "?s = ?i\<lparr>isRefreshing := True, in_flight := [(1, ''r0'', False)],
          refresh_calls := 1, failedQueue := [2, 3]\<rparr>"
    by simp
  have fl: "in_flight ?s = [(1, ''r0'', False)]" and rc: "refresh_calls ?s = 1"
    and fq: "failedQueue ?s = [2, 3]" and st: "settled ?s = []"
    unfolding e by (simp_all add: initial_def)
  have ne: "in_flight ?s \<noteq> []" using fl by simp
  from t ne obtain c0 rt rm where c0: "in_flight ?s = [(c0, rt, rm)]"
    and ok: "\<forall>tok newr. truthy tok \<longrightarrow>
             \<not> isRefreshing (settle (Success tok newr) ?s) \<and>
             settled (settle (Success tok newr) ?s) =
               settled ?s @ map (\<lambda>q. (q, Resolved tok)) (failedQueue ?s) @ [(c0, Resolved tok)]"
    and ko: "\<forall>err.
             \<not> isRefreshing (settle (Failure err) ?s) \<and>
             settled (settle (Failure err) ?s) =
               settled ?s @ map (\<lambda>q. (q, Rejected err)) (failedQueue ?s) @ [(c0, Resolved None)]"
    by blast
  from c0 fl have c1: "c0 = 1" by simp
  from ok h2 have ok': "\<not> isRefreshing (settle (Success (Some ''a1'') (Some ''r1'')) ?s) \<and>
     settled (settle (Success (Some ''a1'') (Some ''r1'')) ?s) =
       settled ?s @ map (\<lambda>q. (q, Resolved (Some ''a1''))) (failedQueue ?s) @ [(c0, Resolved (Some ''a1''))]"
    by blast
  from ko have ko': "\<not> isRefreshing (settle (Failure ''401'') ?s) \<and>
     settled (settle (Failure ''401'') ?s) =
       settled ?s @ map (\<lambda>q. (q, Rejected ''401'')) (failedQueue ?s) @ [(c0, Resolved None)]"
    by blast
  from h1 h2 fl rc fq ok' ko' show ?thesis
    unfolding st fq c1 by simp
qed

section \<open>Properties of token refresh\<close>

lemma find_id_map_save:
  assumes "find (\<lambda>v. u_id v = n) db = Some u" and "u_id u' = n"
  shows "find (\<lambda>v. u_id v = n) (save u' db) = Some u'"
  using assms by (induction db) (auto simp: save_def split: if_splits)

lemma findById_save:
  assumes "findById db i = Some u" and "u_id u' = u_id u"
  shows "findById (save u' db) i = Some u'"
proof -
  from assms(1) obtain n where i: "i = Some n" and f: "find (\<lambda>v. u_id v = n) db = Some u"
    by (auto simp: findById_def split: option.splits)
  from f have "u_id u = n" by (auto simp: find_Some_iff)
  with find_id_map_save [OF f, of u'] assms(2) i show ?thesis by (simp add: findById_def)
qed

lemma refresh_route_mismatch:
  assumes "jwt_verify t (JWT_REFRESH_SECRET e) (Some (config_issuer e)) (Some (config_audience e))
             (now_seconds now) = Inr d"
      and "p_type d = Some ''refresh''" and "findById db (p_id d) = Some u"
      and "u_refreshToken u \<noteq> Some t"
  shows "refresh_route e db now (Some t) r =
           (Fail 401 ''Refresh token mismatch'' (Some ''REFRESH_TOKEN_MISMATCH''), db)"
proof -
  from assms(1) have "\<not> falsy_token t"
    by (cases t) (auto simp: jwt_verify_def)
  with assms show ?thesis by (simp add: refresh_route_def)
qed

lemma refreshTokens_mismatch:
  assumes "verifyToken e t True now = Inr d"
      and "p_type d = Some ''refresh''" and "findById db (p_id d) = Some u"
      and "u_refreshToken u \<noteq> Some t"
  shows "refreshTokens e db now (Some t) r = (Inl (PlainError ''Refresh token mismatch''), db)"
proof -
  from verifyToken_Inr [OF assms(1)] have "\<not> falsy_token t" by auto
  with assms show ?thesis by (simp add: refreshTokens_def)
qed

lemma refresh_verify_not_falsy:
  "refresh_verify e t now = Inr d \<Longrightarrow> \<not> falsy_token t"
  by (cases t) (auto simp: jwt_verify_def)

lemma refresh_route_required:
  "refresh_route e db now None r =
     (Fail 400 ''Refresh token required'' (Some ''REFRESH_TOKEN_REQUIRED''), db)"
  "refresh_route e db now (Some (Garbage [])) r =
     (Fail 400 ''Refresh token required'' (Some ''REFRESH_TOKEN_REQUIRED''), db)"
  by (simp_all add: refresh_route_def)

lemma refresh_route_expired:
  assumes "refresh_verify e t now = Inl TokenExpiredError"
  shows "refresh_route e db now (Some t) r =
           (Fail 401 ''Refresh token expired'' (Some ''REFRESH_TOKEN_EXPIRED''), db)"
proof -
  from assms have "\<not> falsy_token t" by (cases t) (auto simp: jwt_verify_def)
  with assms show ?thesis by (simp add: refresh_route_def)
qed

lemma refresh_route_invalid:
  assumes "t \<noteq> Garbage []" and "refresh_verify e t now = Inl x" and "x \<noteq> TokenExpiredError"
  shows "refresh_route e db now (Some t) r =
           (Fail 401 ''Invalid refresh token'' (Some ''INVALID_REFRESH_TOKEN''), db)"
proof -
  from assms(1) have "\<not> falsy_token t" by (cases t) auto
  with assms show ?thesis by (simp add: refresh_route_def)
qed

lemma refresh_route_wrong_type:
  assumes "refresh_verify e t now = Inr d" and "p_type d \<noteq> Some ''refresh''"
  shows "refresh_route e db now (Some t) r =
           (Fail 401 ''Invalid token type'' (Some ''INVALID_TOKEN_TYPE''), db)"
  using assms refresh_verify_not_falsy [OF assms(1)] by (simp add: refresh_route_def)

lemma refresh_route_no_user:
  assumes "refresh_verify e t now = Inr d" and "p_type d = Some ''refresh''"
      and "findById db (p_id d) = None"
  shows "refresh_route e db now (Some t) r =
           (Fail 401 ''User not found'' (Some ''USER_NOT_FOUND''), db)"
  using assms refresh_verify_not_falsy [OF assms(1)] by (simp add: refresh_route_def)

lemma refresh_route_first_failing_check:
  assumes "\<forall>d u. refresh_verify e t now = Inr d \<and> p_type d = Some ''refresh'' \<and>
                 findById db (p_id d) = Some u \<longrightarrow> u_refreshToken u \<noteq> Some t"
  shows "refresh_route e db now (Some t) r \<in>
           {(Fail 400 ''Refresh token required'' (Some ''REFRESH_TOKEN_REQUIRED''), db),
            (Fail 401 ''Refresh token expired'' (Some ''REFRESH_TOKEN_EXPIRED''), db),
            (Fail 401 ''Invalid refresh token'' (Some ''INVALID_REFRESH_TOKEN''), db),
            (Fail 401 ''Invalid token type'' (Some ''INVALID_TOKEN_TYPE''), db),
            (Fail 401 ''User not found'' (Some ''USER_NOT_FOUND''), db),
            (Fail 401 ''Refresh token mismatch'' (Some ''REFRESH_TOKEN_MISMATCH''), db)}"
proof (cases "t = Garbage []")
  case True
  then show ?thesis using refresh_route_required(2) by simp
next
  case nf: False
  show ?thesis
  proof (cases "refresh_verify e t now")
    case (Inl x)
    then show ?thesis
      using refresh_route_expired [where e = e and t = t and now = now and db = db and r = r]
        refresh_route_invalid [OF nf, where e = e and now = now and x = x and db = db and r = r]
      by (cases "x = TokenExpiredError") auto
  next
    case (Inr d)
    show ?thesis
    proof (cases "p_type d = Some ''refresh''")
      case False
      with Inr show ?thesis using refresh_route_wrong_type [where e = e and t = t and now = now and d = d and db = db and r = r]
        by simp
    next
      case ty: True
      show ?thesis
      proof (cases "findById db (p_id d)")
        case None
        with Inr ty show ?thesis using refresh_route_no_user [where e = e and t = t and now = now and d = d and db = db and r = r]
          by simp
      next
        case (Some u)
        with Inr ty assms have "u_refreshToken u \<noteq> Some t" by blast
        with Inr ty Some show ?thesis using refresh_route_mismatch [of t e now d db u r] by simp
      qed
    qed
  qed
qed

lemma generateTokens_refresh_claims:
  assumes "generateTokens e userId remember now = Inr tk"
  shows "\<exists>k. JWT_REFRESH_SECRET e = Some k \<and> k \<noteq> [] \<and>
           tk_refreshToken tk =
             Jwt \<lparr>p_id = Some userId, p_type = Some ''refresh'', p_fp = None,
                  p_iat = Some (now_seconds now),
                  p_exp = Some (now_seconds now + (if remember then span_30d else span_7d)),
                  p_iss = Some (config_issuer e), p_aud = Some (config_audience e)\<rparr> k"
  using assms
  by (auto simp: generateTokens_def jwt_sign_def claims_of_def Let_def
           split: sum.splits option.splits if_splits)

lemma refresh_route_success:
  assumes "refresh_route e db now (Some rt) r = (Ok ok, db')"
  shows "\<exists>d u tk. refresh_verify e rt now = Inr d \<and> p_type d = Some ''refresh'' \<and>
           findById db (p_id d) = Some u \<and> u_refreshToken u = Some rt \<and> \<not> u_isSuspended u \<and>
           generateTokens e (u_id u) r now = Inr tk \<and>
           ok = \<lparr>rr_accessToken = tk_accessToken tk, rr_refreshToken = tk_refreshToken tk,
                 rr_expiresIn = (if r then ''7d'' else ''15m'')\<rparr> \<and>
           db' = save (u\<lparr>u_refreshToken := Some (tk_refreshToken tk), u_lastActive := Some now\<rparr>) db \<and>
           findById db' (p_id d) =
             Some (u\<lparr>u_refreshToken := Some (tk_refreshToken tk), u_lastActive := Some now\<rparr>)"
proof -
  from assms obtain d u tk where
    v: "refresh_verify e rt now = Inr d" and ty: "p_type d = Some ''refresh''"
    and f: "findById db (p_id d) = Some u" and st: "u_refreshToken u = Some rt"
    and su: "\<not> u_isSuspended u" and g: "generateTokens e (u_id u) r now = Inr tk"
    and ok: "ok = \<lparr>rr_accessToken = tk_accessToken tk, rr_refreshToken = tk_refreshToken tk,
                 rr_expiresIn = (if r then ''7d'' else ''15m'')\<rparr>"
    and db': "db' = save (u\<lparr>u_refreshToken := Some (tk_refreshToken tk), u_lastActive := Some now\<rparr>) db"
    by (auto simp: refresh_route_def split: if_splits sum.splits option.splits)
  have "findById db' (p_id d) =
          Some (u\<lparr>u_refreshToken := Some (tk_refreshToken tk), u_lastActive := Some now\<rparr>)"
    unfolding db' by (rule findById_save [OF f]) simp
  with v ty f st su g ok db' show ?thesis by blast
qed

lemma refresh_route_succeeds:
  assumes "refresh_verify e rt now = Inr d" and "p_type d = Some ''refresh''"
      and "findById db (p_id d) = Some u" and "u_refreshToken u = Some rt"
      and "\<not> u_isSuspended u" and "truthy (JWT_SECRET e)"
  shows "\<exists>ok db'. refresh_route e db now (Some rt) r = (Ok ok, db')"
proof -
  from assms(1) have k: "truthy (JWT_REFRESH_SECRET e)"
    by (cases rt) (auto simp: jwt_verify_def split: if_splits)
  from assms(6) k obtain tk where "generateTokens e (u_id u) r now = Inr tk"
    by (auto simp: generateTokens_def jwt_sign_def truthy_def Let_def split: option.splits)
  with assms refresh_verify_not_falsy [OF assms(1)] show ?thesis
    by (simp add: refresh_route_def)
qed


lemma rotated_out_token:
  assumes "refresh_route e db now (Some rt) r = (Ok ok, db')"
      and "jwt_decode rt = Some d0"
      and "p_iat d0 \<noteq> Some (now_seconds now) \<or>
           p_exp d0 \<noteq> Some (now_seconds now + (if r then span_30d else span_7d))"
  shows "rr_refreshToken ok \<noteq> rt"
    and "refresh_route e db' now' (Some rt) r' =
           (if (case p_exp d0 of None \<Rightarrow> False | Some x \<Rightarrow> x \<le> now_seconds now')
            then (Fail 401 ''Refresh token expired'' (Some ''REFRESH_TOKEN_EXPIRED''), db')
            else (Fail 401 ''Refresh token mismatch'' (Some ''REFRESH_TOKEN_MISMATCH''), db'))"
proof -
  from refresh_route_success [OF assms(1)] obtain d u tk where
    v: "refresh_verify e rt now = Inr d" and ty: "p_type d = Some ''refresh''"
    and g: "generateTokens e (u_id u) r now = Inr tk"
    and ok: "rr_refreshToken ok = tk_refreshToken tk"
    and f': "findById db' (p_id d) =
              Some (u\<lparr>u_refreshToken := Some (tk_refreshToken tk), u_lastActive := Some now\<rparr>)"
    by auto
  from v assms(2) obtain k where rt: "rt = Jwt d0 k" and dd: "d = d0"
    and key: "truthy (JWT_REFRESH_SECRET e)" "Some k = JWT_REFRESH_SECRET e"
    and aud: "p_aud d0 = Some (config_audience e)" and iss: "p_iss d0 = Some (config_issuer e)"
    by (cases rt) (auto simp: jwt_verify_def split: if_splits)
  from generateTokens_refresh_claims [OF g] rt assms(3)
  have ne: "tk_refreshToken tk \<noteq> rt" by auto
  with ok show "rr_refreshToken ok \<noteq> rt" by simp
  have v': "refresh_verify e rt now' =
              (if (case p_exp d0 of None \<Rightarrow> False | Some x \<Rightarrow> x \<le> now_seconds now')
               then Inl TokenExpiredError else Inr d0)"
    using rt key aud iss by (simp add: jwt_verify_def)
  show "refresh_route e db' now' (Some rt) r' =
           (if (case p_exp d0 of None \<Rightarrow> False | Some x \<Rightarrow> x \<le> now_seconds now')
            then (Fail 401 ''Refresh token expired'' (Some ''REFRESH_TOKEN_EXPIRED''), db')
            else (Fail 401 ''Refresh token mismatch'' (Some ''REFRESH_TOKEN_MISMATCH''), db'))"
  proof (cases "case p_exp d0 of None \<Rightarrow> False | Some x \<Rightarrow> x \<le> now_seconds now'")
    case True
    with v' have "refresh_verify e rt now' = Inl TokenExpiredError" by simp
    from refresh_route_expired [OF this] True show ?thesis by simp
  next
    case False
    with v' have 1: "refresh_verify e rt now' = Inr d0" by simp
    have 2: "u_refreshToken (u\<lparr>u_refreshToken := Some (tk_refreshToken tk),
                u_lastActive := Some now\<rparr>) \<noteq> Some rt"
      using ne by simp
    from refresh_route_mismatch [OF 1 _ _ 2] ty dd f' False show ?thesis by simp
  qed
qed

lemma generateRefreshToken_claims:
  assumes "generateRefreshToken e userId remember now = Inr t"
  shows "\<exists>k. JWT_REFRESH_SECRET e = Some k \<and> k \<noteq> [] \<and>
           t = Jwt \<lparr>p_id = Some userId, p_type = Some ''refresh'', p_fp = None,
                    p_iat = Some (now_seconds now),
                    p_exp = Some (now_seconds now + (if remember then span_30d else span_7d)),
                    p_iss = Some (config_issuer e), p_aud = Some (config_audience e)\<rparr> k"
  using assms
  by (auto simp: generateRefreshToken_def jwt_sign_def claims_of_def Let_def truthy_def
           split: option.splits if_splits)

lemma refreshTokens_success:
  assumes "refreshTokens e db now (Some rt) r = (Inr ok, db')"
  shows "\<exists>d u a t. verifyToken e rt True now = Inr d \<and> p_type d = Some ''refresh'' \<and>
           findById db (p_id d) = Some u \<and> u_refreshToken u = Some rt \<and> \<not> u_isSuspended u \<and>
           generateAccessToken e (u_id u) r now = Inr a \<and>
           generateRefreshToken e (u_id u) r now = Inr t \<and>
           ok = \<lparr>rr_accessToken = a, rr_refreshToken = t,
                 rr_expiresIn = (if r then ''7d'' else ''15m'')\<rparr> \<and>
           db' = save (u\<lparr>u_refreshToken := Some t, u_lastActive := Some now\<rparr>) db \<and>
           findById db' (p_id d) = Some (u\<lparr>u_refreshToken := Some t, u_lastActive := Some now\<rparr>)"
proof -
  from assms obtain d u a t where
    v: "verifyToken e rt True now = Inr d" and ty: "p_type d = Some ''refresh''"
    and f: "findById db (p_id d) = Some u" and st: "u_refreshToken u = Some rt"
    and su: "\<not> u_isSuspended u"
    and ga: "generateAccessToken e (u_id u) r now = Inr a"
    and gr: "generateRefreshToken e (u_id u) r now = Inr t"
    and ok: "ok = \<lparr>rr_accessToken = a, rr_refreshToken = t,
                 rr_expiresIn = (if r then ''7d'' else ''15m'')\<rparr>"
    and db': "db' = save (u\<lparr>u_refreshToken := Some t, u_lastActive := Some now\<rparr>) db"
    by (auto simp: refreshTokens_def split: if_splits sum.splits option.splits)
  have "findById db' (p_id d) = Some (u\<lparr>u_refreshToken := Some t, u_lastActive := Some now\<rparr>)"
    unfolding db' by (rule findById_save [OF f]) simp
  with v ty f st su ga gr ok db' show ?thesis by blast
qed

lemma refreshTokens_unequal_throws:
  assumes "\<forall>d u. verifyToken e t True now = Inr d \<and> p_type d = Some ''refresh'' \<and>
                 findById db (p_id d) = Some u \<longrightarrow> u_refreshToken u \<noteq> Some t"
  shows "\<exists>x. refreshTokens e db now (Some t) r = (Inl x, db)"
proof (cases "refreshTokens e db now (Some t) r")
  case (Pair res db')
  show ?thesis
  proof (cases res)
    case (Inr ok)
    with Pair refreshTokens_success [of e db now t r ok db'] assms show ?thesis by blast
  next
    case (Inl x)
    with Pair have "db' = db"
      by (auto simp: refreshTokens_def split: if_splits sum.splits option.splits)
    with Pair Inl show ?thesis by simp
  qed
qed


text \<open>
  C1, as the code has it. A successful refresh overwrites the stored refresh token of
  the user the presented token names with the refresh token minted by that call (the
  user's id, type \<^verbatim>\<open>'refresh'\<close>, \<^verbatim>\<open>iat\<close> the clock second of the call, \<^verbatim>\<open>exp\<close> 7 or 30
  days later by the profile), which is also the one returned; and a call whose token
  passes all checks for an unsuspended user, with the access secret set, is successful.
  A refresh that presents a string different from the token stored for the user it names
  fails, mints nothing and leaves the collection as it is, with the error of the first
  check that fails: 400 \<^verbatim>\<open>REFRESH_TOKEN_REQUIRED\<close> (no or empty string), 401
  \<^verbatim>\<open>REFRESH_TOKEN_EXPIRED\<close> (verification throws \<^verbatim>\<open>TokenExpiredError\<close>), 401
  \<^verbatim>\<open>INVALID_REFRESH_TOKEN\<close> (verification throws otherwise), 401
  \<^verbatim>\<open>INVALID_TOKEN_TYPE\<close>, 401 \<^verbatim>\<open>USER_NOT_FOUND\<close>, and 401 \<^verbatim>\<open>REFRESH_TOKEN_MISMATCH\<close>
  when all of these pass. A rotated-out token issued in another clock second than the
  refresh that replaced it, or under the other profile, differs from the new one, and
  from then on is answered \<^verbatim>\<open>REFRESH_TOKEN_MISMATCH\<close> until its own expiry and
  \<^verbatim>\<open>REFRESH_TOKEN_EXPIRED\<close> after. The helper \<^verbatim>\<open>refreshTokens\<close> stores the token it
  mints likewise, throws \<^verbatim>\<open>'Refresh token mismatch'\<close> where the route answers
  \<^verbatim>\<open>REFRESH_TOKEN_MISMATCH\<close>, and throws and changes nothing whenever the presented
  token differs from the stored one.
\<close>

theorem refresh_rotation:
  "(refresh_route e db now (Some rt) r = (Ok ok, db') \<longrightarrow>
      (\<exists>d u tk.
         refresh_verify e rt now = Inr d \<and> p_type d = Some ''refresh'' \<and>
         findById db (p_id d) = Some u \<and> u_refreshToken u = Some rt \<and> \<not> u_isSuspended u \<and>
         generateTokens e (u_id u) r now = Inr tk \<and>
         ok = \<lparr>rr_accessToken = tk_accessToken tk, rr_refreshToken = tk_refreshToken tk,
               rr_expiresIn = (if r then ''7d'' else ''15m'')\<rparr> \<and>
         jwt_decode (rr_refreshToken ok) =
           Some \<lparr>p_id = Some (u_id u), p_type = Some ''refresh'', p_fp = None,
                 p_iat = Some (now_seconds now),
                 p_exp = Some (now_seconds now + (if r then span_30d else span_7d)),
                 p_iss = Some (config_issuer e), p_aud = Some (config_audience e)\<rparr> \<and>
         db' = save (u\<lparr>u_refreshToken := Some (rr_refreshToken ok), u_lastActive := Some now\<rparr>) db \<and>
         findById db' (p_id d) =
           Some (u\<lparr>u_refreshToken := Some (rr_refreshToken ok), u_lastActive := Some now\<rparr>)) \<and>
      (jwt_decode rt = Some d0 \<and>
       (p_iat d0 \<noteq> Some (now_seconds now) \<or>
        p_exp d0 \<noteq> Some (now_seconds now + (if r then span_30d else span_7d))) \<longrightarrow>
         rr_refreshToken ok \<noteq> rt \<and>
         (\<forall>now' r'.
            refresh_route e db' now' (Some rt) r' =
              (if (case p_exp d0 of None \<Rightarrow> False | Some x \<Rightarrow> x \<le> now_seconds now')
               then (Fail 401 ''Refresh token expired'' (Some ''REFRESH_TOKEN_EXPIRED''), db')
               else (Fail 401 ''Refresh token mismatch'' (Some ''REFRESH_TOKEN_MISMATCH''), db'))))) \<and>
   (refresh_verify e rt now = Inr d \<and> p_type d = Some ''refresh'' \<and>
    findById db (p_id d) = Some u \<and> u_refreshToken u = Some rt \<and> \<not> u_isSuspended u \<and>
    truthy (JWT_SECRET e) \<longrightarrow>
      (\<exists>ok2 db2. refresh_route e db now (Some rt) r = (Ok ok2, db2))) \<and>
   refresh_route e db now None r =
     (Fail 400 ''Refresh token required'' (Some ''REFRESH_TOKEN_REQUIRED''), db) \<and>
   refresh_route e db now (Some (Garbage [])) r =
     (Fail 400 ''Refresh token required'' (Some ''REFRESH_TOKEN_REQUIRED''), db) \<and>
   (refresh_verify e t now = Inl TokenExpiredError \<longrightarrow>
      refresh_route e db now (Some t) r =
        (Fail 401 ''Refresh token expired'' (Some ''REFRESH_TOKEN_EXPIRED''), db)) \<and>
   (t \<noteq> Garbage [] \<and> refresh_verify e t now = Inl x \<and> x \<noteq> TokenExpiredError \<longrightarrow>
      refresh_route e db now (Some t) r =
        (Fail 401 ''Invalid refresh token'' (Some ''INVALID_REFRESH_TOKEN''), db)) \<and>
   (refresh_verify e t now = Inr d \<and> p_type d \<noteq> Some ''refresh'' \<longrightarrow>
      refresh_route e db now (Some t) r =
        (Fail 401 ''Invalid token type'' (Some ''INVALID_TOKEN_TYPE''), db)) \<and>
   (refresh_verify e t now = Inr d \<and> p_type d = Some ''refresh'' \<and>
    findById db (p_id d) = None \<longrightarrow>
      refresh_route e db now (Some t) r =
        (Fail 401 ''User not found'' (Some ''USER_NOT_FOUND''), db)) \<and>
   (refresh_verify e t now = Inr d \<and> p_type d = Some ''refresh'' \<and>
    findById db (p_id d) = Some u \<and> u_refreshToken u \<noteq> Some t \<longrightarrow>
      refresh_route e db now (Some t) r =
        (Fail 401 ''Refresh token mismatch'' (Some ''REFRESH_TOKEN_MISMATCH''), db)) \<and>
   ((\<forall>d u. refresh_verify e t now = Inr d \<and> p_type d = Some ''refresh'' \<and>
           findById db (p_id d) = Some u \<longrightarrow> u_refreshToken u \<noteq> Some t) \<longrightarrow>
      refresh_route e db now (Some t) r \<in>
        {(Fail 400 ''Refresh token required'' (Some ''REFRESH_TOKEN_REQUIRED''), db),
         (Fail 401 ''Refresh token expired'' (Some ''REFRESH_TOKEN_EXPIRED''), db),
         (Fail 401 ''Invalid refresh token'' (Some ''INVALID_REFRESH_TOKEN''), db),
         (Fail 401 ''Invalid token type'' (Some ''INVALID_TOKEN_TYPE''), db),
         (Fail 401 ''User not found'' (Some ''USER_NOT_FOUND''), db),
         (Fail 401 ''Refresh token mismatch'' (Some ''REFRESH_TOKEN_MISMATCH''), db)}) \<and>
   (refreshTokens e db now (Some rt) r = (Inr ok, db') \<longrightarrow>
      (\<exists>d u a.
         verifyToken e rt True now = Inr d \<and> p_type d = Some ''refresh'' \<and>
         findById db (p_id d) = Some u \<and> u_refreshToken u = Some rt \<and> \<not> u_isSuspended u \<and>
         generateAccessToken e (u_id u) r now = Inr a \<and>
         generateRefreshToken e (u_id u) r now = Inr (rr_refreshToken ok) \<and>
         ok = \<lparr>rr_accessToken = a, rr_refreshToken = rr_refreshToken ok,
               rr_expiresIn = (if r then ''7d'' else ''15m'')\<rparr> \<and>
         jwt_decode (rr_refreshToken ok) =
           Some \<lparr>p_id = Some (u_id u), p_type = Some ''refresh'', p_fp = None,
                 p_iat = Some (now_seconds now),
                 p_exp = Some (now_seconds now + (if r then span_30d else span_7d)),
                 p_iss = Some (config_issuer e), p_aud = Some (config_audience e)\<rparr> \<and>
         db' = save (u\<lparr>u_refreshToken := Some (rr_refreshToken ok), u_lastActive := Some now\<rparr>) db \<and>
         findById db' (p_id d) =
           Some (u\<lparr>u_refreshToken := Some (rr_refreshToken ok), u_lastActive := Some now\<rparr>))) \<and>
   (verifyToken e t True now = Inr d \<and> p_type d = Some ''refresh'' \<and>
    findById db (p_id d) = Some u \<and> u_refreshToken u \<noteq> Some t \<longrightarrow>
      refreshTokens e db now (Some t) r = (Inl (PlainError ''Refresh token mismatch''), db)) \<and>
   ((\<forall>d u. verifyToken e t True now = Inr d \<and> p_type d = Some ''refresh'' \<and>
           findById db (p_id d) = Some u \<longrightarrow> u_refreshToken u \<noteq> Some t) \<longrightarrow>
      (\<exists>x. refreshTokens e db now (Some t) r = (Inl x, db)))"
proof -
  have c1: "refresh_route e db now (Some rt) r = (Ok ok, db') \<longrightarrow>
      (\<exists>d u tk.
         refresh_verify e rt now = Inr d \<and> p_type d = Some ''refresh'' \<and>
         findById db (p_id d) = Some u \<and> u_refreshToken u = Some rt \<and> \<not> u_isSuspended u \<and>
         generateTokens e (u_id u) r now = Inr tk \<and>
         ok = \<lparr>rr_accessToken = tk_accessToken tk, rr_refreshToken = tk_refreshToken tk,
               rr_expiresIn = (if r then ''7d'' else ''15m'')\<rparr> \<and>
         jwt_decode (rr_refreshToken ok) =
           Some \<lparr>p_id = Some (u_id u), p_type = Some ''refresh'', p_fp = None,
                 p_iat = Some (now_seconds now),
                 p_exp = Some (now_seconds now + (if r then span_30d else span_7d)),
                 p_iss = Some (config_issuer e), p_aud = Some (config_audience e)\<rparr> \<and>
         db' = save (u\<lparr>u_refreshToken := Some (rr_refreshToken ok), u_lastActive := Some now\<rparr>) db \<and>
         findById db' (p_id d) =
           Some (u\<lparr>u_refreshToken := Some (rr_refreshToken ok), u_lastActive := Some now\<rparr>))"
  proof
    assume a: "refresh_route e db now (Some rt) r = (Ok ok, db')"
    from refresh_route_success [OF a] obtain d u tk where
      1: "refresh_verify e rt now = Inr d" "p_type d = Some ''refresh''"
         "findById db (p_id d) = Some u" "u_refreshToken u = Some rt" "\<not> u_isSuspended u"
         "generateTokens e (u_id u) r now = Inr tk"
      and 2: "ok = \<lparr>rr_accessToken = tk_accessToken tk, rr_refreshToken = tk_refreshToken tk,
                 rr_expiresIn = (if r then ''7d'' else ''15m'')\<rparr>"
      and 3: "db' = save (u\<lparr>u_refreshToken := Some (tk_refreshToken tk), u_lastActive := Some now\<rparr>) db"
             "findById db' (p_id d) =
                Some (u\<lparr>u_refreshToken := Some (tk_refreshToken tk), u_lastActive := Some now\<rparr>)"
      by blast
    from 2 have 4: "rr_refreshToken ok = tk_refreshToken tk" by simp
    from generateTokens_refresh_claims [OF 1(6)] 4
    have 5: "jwt_decode (rr_refreshToken ok) =
           Some \<lparr>p_id = Some (u_id u), p_type = Some ''refresh'', p_fp = None,
                 p_iat = Some (now_seconds now),
                 p_exp = Some (now_seconds now + (if r then span_30d else span_7d)),
                 p_iss = Some (config_issuer e), p_aud = Some (config_audience e)\<rparr>"
      by auto
    from 1 2 3 5 show "\<exists>d u tk.
         refresh_verify e rt now = Inr d \<and> p_type d = Some ''refresh'' \<and>
         findById db (p_id d) = Some u \<and> u_refreshToken u = Some rt \<and> \<not> u_isSuspended u \<and>
         generateTokens e (u_id u) r now = Inr tk \<and>
         ok = \<lparr>rr_accessToken = tk_accessToken tk, rr_refreshToken = tk_refreshToken tk,
               rr_expiresIn = (if r then ''7d'' else ''15m'')\<rparr> \<and>
         jwt_decode (rr_refreshToken ok) =
           Some \<lparr>p_id = Some (u_id u), p_type = Some ''refresh'', p_fp = None,
                 p_iat = Some (now_seconds now),
                 p_exp = Some (now_seconds now + (if r then span_30d else span_7d)),
                 p_iss = Some (config_issuer e), p_aud = Some (config_audience e)\<rparr> \<and>
         db' = save (u\<lparr>u_refreshToken := Some (rr_refreshToken ok), u_lastActive := Some now\<rparr>) db \<and>
         findById db' (p_id d) =
           Some (u\<lparr>u_refreshToken := Some (rr_refreshToken ok), u_lastActive := Some now\<rparr>)"
      unfolding 4 by blast
  qed
  have c2: "refresh_route e db now (Some rt) r = (Ok ok, db') \<longrightarrow>
      (jwt_decode rt = Some d0 \<and>
       (p_iat d0 \<noteq> Some (now_seconds now) \<or>
        p_exp d0 \<noteq> Some (now_seconds now + (if r then span_30d else span_7d))) \<longrightarrow>
         rr_refreshToken ok \<noteq> rt \<and>
         (\<forall>now' r'.
            refresh_route e db' now' (Some rt) r' =
              (if (case p_exp d0 of None \<Rightarrow> False | Some x \<Rightarrow> x \<le> now_seconds now')
               then (Fail 401 ''Refresh token expired'' (Some ''REFRESH_TOKEN_EXPIRED''), db')
               else (Fail 401 ''Refresh token mismatch'' (Some ''REFRESH_TOKEN_MISMATCH''), db'))))"
    using rotated_out_token [where e = e and db = db and now = now and rt = rt and r = r
        and ok = ok and db' = db' and ?d0.0 = d0] by blast
  have c3: "refresh_verify e rt now = Inr d \<and> p_type d = Some ''refresh'' \<and>
    findById db (p_id d) = Some u \<and> u_refreshToken u = Some rt \<and> \<not> u_isSuspended u \<and>
    truthy (JWT_SECRET e) \<longrightarrow>
      (\<exists>ok2 db2. refresh_route e db now (Some rt) r = (Ok ok2, db2))"
    using refresh_route_succeeds [where e = e and rt = rt and now = now and d = d and db = db
        and u = u and r = r] by blast
  note c4 = refresh_route_required [of e db now r]
  have c5: "refresh_verify e t now = Inl TokenExpiredError \<longrightarrow>
      refresh_route e db now (Some t) r =
        (Fail 401 ''Refresh token expired'' (Some ''REFRESH_TOKEN_EXPIRED''), db)"
    using refresh_route_expired by blast
  have c6: "t \<noteq> Garbage [] \<and> refresh_verify e t now = Inl x \<and> x \<noteq> TokenExpiredError \<longrightarrow>
      refresh_route e db now (Some t) r =
        (Fail 401 ''Invalid refresh token'' (Some ''INVALID_REFRESH_TOKEN''), db)"
    using refresh_route_invalid by blast
  have c7: "refresh_verify e t now = Inr d \<and> p_type d \<noteq> Some ''refresh'' \<longrightarrow>
      refresh_route e db now (Some t) r =
        (Fail 401 ''Invalid token type'' (Some ''INVALID_TOKEN_TYPE''), db)"
    using refresh_route_wrong_type by blast
  have c8: "refresh_verify e t now = Inr d \<and> p_type d = Some ''refresh'' \<and>
    findById db (p_id d) = None \<longrightarrow>
      refresh_route e db now (Some t) r =
        (Fail 401 ''User not found'' (Some ''USER_NOT_FOUND''), db)"
    using refresh_route_no_user by blast
  have c9: "refresh_verify e t now = Inr d \<and> p_type d = Some ''refresh'' \<and>
    findById db (p_id d) = Some u \<and> u_refreshToken u \<noteq> Some t \<longrightarrow>
      refresh_route e db now (Some t) r =
        (Fail 401 ''Refresh token mismatch'' (Some ''REFRESH_TOKEN_MISMATCH''), db)"
    using refresh_route_mismatch by blast
  have c10: "(\<forall>d u. refresh_verify e t now = Inr d \<and> p_type d = Some ''refresh'' \<and>
           findById db (p_id d) = Some u \<longrightarrow> u_refreshToken u \<noteq> Some t) \<longrightarrow>
      refresh_route e db now (Some t) r \<in>
        {(Fail 400 ''Refresh token required'' (Some ''REFRESH_TOKEN_REQUIRED''), db),
         (Fail 401 ''Refresh token expired'' (Some ''REFRESH_TOKEN_EXPIRED''), db),
         (Fail 401 ''Invalid refresh token'' (Some ''INVALID_REFRESH_TOKEN''), db),
         (Fail 401 ''Invalid token type'' (Some ''INVALID_TOKEN_TYPE''), db),
         (Fail 401 ''User not found'' (Some ''USER_NOT_FOUND''), db),
         (Fail 401 ''Refresh token mismatch'' (Some ''REFRESH_TOKEN_MISMATCH''), db)}"
    using refresh_route_first_failing_check [where e = e and t = t and now = now and db = db
        and r = r] by blast
  have c11: "refreshTokens e db now (Some rt) r = (Inr ok, db') \<longrightarrow>
      (\<exists>d u a.
         verifyToken e rt True now = Inr d \<and> p_type d = Some ''refresh'' \<and>
         findById db (p_id d) = Some u \<and> u_refreshToken u = Some rt \<and> \<not> u_isSuspended u \<and>
         generateAccessToken e (u_id u) r now = Inr a \<and>
         generateRefreshToken e (u_id u) r now = Inr (rr_refreshToken ok) \<and>
         ok = \<lparr>rr_accessToken = a, rr_refreshToken = rr_refreshToken ok,
               rr_expiresIn = (if r then ''7d'' else ''15m'')\<rparr> \<and>
         jwt_decode (rr_refreshToken ok) =
           Some \<lparr>p_id = Some (u_id u), p_type = Some ''refresh'', p_fp = None,
                 p_iat = Some (now_seconds now),
                 p_exp = Some (now_seconds now + (if r then span_30d else span_7d)),
                 p_iss = Some (config_issuer e), p_aud = Some (config_audience e)\<rparr> \<and>
         db' = save (u\<lparr>u_refreshToken := Some (rr_refreshToken ok), u_lastActive := Some now\<rparr>) db \<and>
         findById db' (p_id d) =
           Some (u\<lparr>u_refreshToken := Some (rr_refreshToken ok), u_lastActive := Some now\<rparr>))"
  proof
    assume a: "refreshTokens e db now (Some rt) r = (Inr ok, db')"
    from refreshTokens_success [OF a] obtain d u a t where
      1: "verifyToken e rt True now = Inr d" "p_type d = Some ''refresh''"
         "findById db (p_id d) = Some u" "u_refreshToken u = Some rt" "\<not> u_isSuspended u"
         "generateAccessToken e (u_id u) r now = Inr a"
      and g: "generateRefreshToken e (u_id u) r now = Inr t"
      and 2: "ok = \<lparr>rr_accessToken = a, rr_refreshToken = t,
                 rr_expiresIn = (if r then ''7d'' else ''15m'')\<rparr>"
      and 3: "db' = save (u\<lparr>u_refreshToken := Some t, u_lastActive := Some now\<rparr>) db"
             "findById db' (p_id d) = Some (u\<lparr>u_refreshToken := Some t, u_lastActive := Some now\<rparr>)"
      by blast
    from 2 have 4: "t = rr_refreshToken ok" by simp
    from generateRefreshToken_claims [OF g]
    have 5: "jwt_decode t =
           Some \<lparr>p_id = Some (u_id u), p_type = Some ''refresh'', p_fp = None,
                 p_iat = Some (now_seconds now),
                 p_exp = Some (now_seconds now + (if r then span_30d else span_7d)),
                 p_iss = Some (config_issuer e), p_aud = Some (config_audience e)\<rparr>"
      by auto
    from 1 g 2 3 5 show "\<exists>d u a.
         verifyToken e rt True now = Inr d \<and> p_type d = Some ''refresh'' \<and>
         findById db (p_id d) = Some u \<and> u_refreshToken u = Some rt \<and> \<not> u_isSuspended u \<and>
         generateAccessToken e (u_id u) r now = Inr a \<and>
         generateRefreshToken e (u_id u) r now = Inr (rr_refreshToken ok) \<and>
         ok = \<lparr>rr_accessToken = a, rr_refreshToken = rr_refreshToken ok,
               rr_expiresIn = (if r then ''7d'' else ''15m'')\<rparr> \<and>
         jwt_decode (rr_refreshToken ok) =
           Some \<lparr>p_id = Some (u_id u), p_type = Some ''refresh'', p_fp = None,
                 p_iat = Some (now_seconds now),
                 p_exp = Some (now_seconds now + (if r then span_30d else span_7d)),
                 p_iss = Some (config_issuer e), p_aud = Some (config_audience e)\<rparr> \<and>
         db' = save (u\<lparr>u_refreshToken := Some (rr_refreshToken ok), u_lastActive := Some now\<rparr>) db \<and>
         findById db' (p_id d) =
           Some (u\<lparr>u_refreshToken := Some (rr_refreshToken ok), u_lastActive := Some now\<rparr>)"
      unfolding 4 by blast
  qed
  have c12: "verifyToken e t True now = Inr d \<and> p_type d = Some ''refresh'' \<and>
    findById db (p_id d) = Some u \<and> u_refreshToken u \<noteq> Some t \<longrightarrow>
      refreshTokens e db now (Some t) r = (Inl (PlainError ''Refresh token mismatch''), db)"
    using refreshTokens_mismatch by blast
  have c13: "(\<forall>d u. verifyToken e t True now = Inr d \<and> p_type d = Some ''refresh'' \<and>
           findById db (p_id d) = Some u \<longrightarrow> u_refreshToken u \<noteq> Some t) \<longrightarrow>
      (\<exists>x. refreshTokens e db now (Some t) r = (Inl x, db))"
    using refreshTokens_unequal_throws [where e = e and t = t and now = now and db = db
        and r = r] by blast
  have c12': "refresh_route e db now (Some rt) r = (Ok ok, db') \<longrightarrow>
      (\<exists>d u tk.
         refresh_verify e rt now = Inr d \<and> p_type d = Some ''refresh'' \<and>
         findById db (p_id d) = Some u \<and> u_refreshToken u = Some rt \<and> \<not> u_isSuspended u \<and>
         generateTokens e (u_id u) r now = Inr tk \<and>
         ok = \<lparr>rr_accessToken = tk_accessToken tk, rr_refreshToken = tk_refreshToken tk,
               rr_expiresIn = (if r then ''7d'' else ''15m'')\<rparr> \<and>
         jwt_decode (rr_refreshToken ok) =
           Some \<lparr>p_id = Some (u_id u), p_type = Some ''refresh'', p_fp = None,
                 p_iat = Some (now_seconds now),
                 p_exp = Some (now_seconds now + (if r then span_30d else span_7d)),
                 p_iss = Some (config_issuer e), p_aud = Some (config_audience e)\<rparr> \<and>
         db' = save (u\<lparr>u_refreshToken := Some (rr_refreshToken ok), u_lastActive := Some now\<rparr>) db \<and>
         findById db' (p_id d) =
           Some (u\<lparr>u_refreshToken := Some (rr_refreshToken ok), u_lastActive := Some now\<rparr>)) \<and>
      (jwt_decode rt = Some d0 \<and>
       (p_iat d0 \<noteq> Some (now_seconds now) \<or>
        p_exp d0 \<noteq> Some (now_seconds now + (if r then span_30d else span_7d))) \<longrightarrow>
         rr_refreshToken ok \<noteq> rt \<and>
         (\<forall>now' r'.
            refresh_route e db' now' (Some rt) r' =
              (if (case p_exp d0 of None \<Rightarrow> False | Some x \<Rightarrow> x \<le> now_seconds now')
               then (Fail 401 ''Refresh token expired'' (Some ''REFRESH_TOKEN_EXPIRED''), db')
               else (Fail 401 ''Refresh token mismatch'' (Some ''REFRESH_TOKEN_MISMATCH''), db'))))"
  proof
    assume a: "refresh_route e db now (Some rt) r = (Ok ok, db')"
    show "(\<exists>d u tk.
         refresh_verify e rt now = Inr d \<and> p_type d = Some ''refresh'' \<and>
         findById db (p_id d) = Some u \<and> u_refreshToken u = Some rt \<and> \<not> u_isSuspended u \<and>
         generateTokens e (u_id u) r now = Inr tk \<and>
         ok = \<lparr>rr_accessToken = tk_accessToken tk, rr_refreshToken = tk_refreshToken tk,
               rr_expiresIn = (if r then ''7d'' else ''15m'')\<rparr> \<and>
         jwt_decode (rr_refreshToken ok) =
           Some \<lparr>p_id = Some (u_id u), p_type = Some ''refresh'', p_fp = None,
                 p_iat = Some (now_seconds now),
                 p_exp = Some (now_seconds now + (if r then span_30d else span_7d)),
                 p_iss = Some (config_issuer e), p_aud = Some (config_audience e)\<rparr> \<and>
         db' = save (u\<lparr>u_refreshToken := Some (rr_refreshToken ok), u_lastActive := Some now\<rparr>) db \<and>
         findById db' (p_id d) =
           Some (u\<lparr>u_refreshToken := Some (rr_refreshToken ok), u_lastActive := Some now\<rparr>)) \<and>
      (jwt_decode rt = Some d0 \<and>
       (p_iat d0 \<noteq> Some (now_seconds now) \<or>
        p_exp d0 \<noteq> Some (now_seconds now + (if r then span_30d else span_7d))) \<longrightarrow>
         rr_refreshToken ok \<noteq> rt \<and>
         (\<forall>now' r'.
            refresh_route e db' now' (Some rt) r' =
              (if (case p_exp d0 of None \<Rightarrow> False | Some x \<Rightarrow> x \<le> now_seconds now')
               then (Fail 401 ''Refresh token expired'' (Some ''REFRESH_TOKEN_EXPIRED''), db')
               else (Fail 401 ''Refresh token mismatch'' (Some ''REFRESH_TOKEN_MISMATCH''), db'))))"
      by (rule conjI [OF mp [OF c1 a] mp [OF c2 a]])
  qed
  show ?thesis
    by (intro conjI c12' c3 c4 c5 c6 c7 c8 c9 c10 c11 c12 c13)
qed


lemma sample_first_refresh:
  "refresh_route sample_env [sample_user] 1700000050000 (Some sample_refresh_token) True =
     (Ok \<lparr>rr_accessToken = sample_new_access, rr_refreshToken = sample_new_refresh,
          rr_expiresIn = ''7d''\<rparr>, sample_db_rotated)"
  by (simp add: refresh_route_def jwt_verify_def sample_env_def sample_refresh_token_def
        sample_user_def truthy_def config_issuer_def config_audience_def js_or_def
        now_seconds_def findById_def generateTokens_def jwt_sign_def claims_of_def
        span_7d_def span_30d_def save_def sample_new_access_def sample_new_refresh_def
        sample_db_rotated_def)

lemma sample_refresh_decoded: "sample_refresh_token = Jwt sample_refresh_claims ''refresh-key''"
  by (simp add: sample_refresh_token_def sample_refresh_claims_def)

lemma sample_refresh_verify:
  "refresh_verify sample_env sample_refresh_token 1700000050000 = Inr sample_refresh_claims"
  "refresh_verify sample_env sample_refresh_token 1700000060000 = Inr sample_refresh_claims"
  "refresh_verify sample_env sample_refresh_token 1700604800000 = Inl TokenExpiredError"
  "refresh_verify sample_env (Garbage ''not-a-token'') 1700000060000 = Inl JsonWebTokenError"
  "refresh_verify sample_env sample_wrong_type_token 1700000060000 =
     Inr (sample_refresh_claims\<lparr>p_type := Some ''access''\<rparr>)"
  "refresh_verify sample_env sample_unknown_user_token 1700000060000 =
     Inr (sample_refresh_claims\<lparr>p_id := Some 8\<rparr>)"
  by (simp_all add: jwt_verify_def sample_env_def sample_refresh_decoded sample_refresh_claims_def
        sample_wrong_type_token_def sample_unknown_user_token_def truthy_def
        config_issuer_def config_audience_def js_or_def now_seconds_def)

lemma sample_verifyToken_refresh:
  "verifyToken sample_env sample_refresh_token True 1700000050000 = Inr sample_refresh_claims"
  "verifyToken sample_env sample_refresh_token True 1700000060000 = Inr sample_refresh_claims"
  by (simp_all add: verifyToken_def jwt_verify_def sample_env_def sample_refresh_decoded
        sample_refresh_claims_def truthy_def config_issuer_def config_audience_def js_or_def
        now_seconds_def)

lemma sample_rotated_find:
  "findById sample_db_rotated (p_id sample_refresh_claims) =
     Some (sample_user\<lparr>u_refreshToken := Some sample_new_refresh,
                        u_lastActive := Some 1700000050000\<rparr>)"
  "findById [sample_user] (p_id sample_refresh_claims) = Some sample_user"
  "findById sample_db_rotated (p_id (sample_refresh_claims\<lparr>p_id := Some 8\<rparr>)) = None"
  by (simp_all add: findById_def sample_db_rotated_def sample_user_def sample_refresh_claims_def)

lemma sample_first_refresh_reply:
  "refresh_route sample_env [sample_user] 1700000050000 (Some sample_refresh_token) True =
     (Ok sample_rotated_reply, sample_db_rotated)"
  using sample_first_refresh by (simp add: sample_rotated_reply_def)

lemma sample_helper_refresh:
  "refreshTokens sample_env [sample_user] 1700000050000 (Some sample_refresh_token) True =
     (Inr sample_rotated_reply, sample_db_rotated)"
  by (simp add: refreshTokens_def verifyToken_def jwt_verify_def sample_env_def
        sample_refresh_token_def sample_user_def truthy_def config_issuer_def
        config_audience_def js_or_def now_seconds_def findById_def generateAccessToken_def
        generateRefreshToken_def jwt_sign_def claims_of_def span_7d_def span_30d_def save_def
        sample_new_access_def sample_new_refresh_def sample_db_rotated_def
        sample_rotated_reply_def)

theorem refresh_rotation_witness:
  "refresh_route sample_env [sample_user] 1700000050000 (Some sample_refresh_token) True =
     (Ok sample_rotated_reply, sample_db_rotated) \<and>
   jwt_decode (rr_refreshToken sample_rotated_reply) =
     Some \<lparr>p_id = Some (u_id sample_user), p_type = Some ''refresh'', p_fp = None,
           p_iat = Some (now_seconds 1700000050000),
           p_exp = Some (now_seconds 1700000050000 + span_30d),
           p_iss = Some (config_issuer sample_env), p_aud = Some (config_audience sample_env)\<rparr> \<and>
   jwt_decode sample_refresh_token = Some sample_refresh_claims \<and>
   p_iat sample_refresh_claims \<noteq> Some (now_seconds 1700000050000) \<and>
   rr_refreshToken sample_rotated_reply \<noteq> sample_refresh_token \<and>
   refresh_route sample_env sample_db_rotated 1700000060000 (Some sample_refresh_token) False =
     (Fail 401 ''Refresh token mismatch'' (Some ''REFRESH_TOKEN_MISMATCH''), sample_db_rotated) \<and>
   refresh_route sample_env sample_db_rotated 1700604800000 (Some sample_refresh_token) False =
     (Fail 401 ''Refresh token expired'' (Some ''REFRESH_TOKEN_EXPIRED''), sample_db_rotated) \<and>
   refresh_route sample_env sample_db_rotated 1700000060000 (Some (Garbage ''not-a-token'')) False =
     (Fail 401 ''Invalid refresh token'' (Some ''INVALID_REFRESH_TOKEN''), sample_db_rotated) \<and>
   refresh_route sample_env sample_db_rotated 1700000060000 (Some sample_wrong_type_token) False =
     (Fail 401 ''Invalid token type'' (Some ''INVALID_TOKEN_TYPE''), sample_db_rotated) \<and>
   refresh_route sample_env sample_db_rotated 1700000060000 (Some sample_unknown_user_token) False =
     (Fail 401 ''User not found'' (Some ''USER_NOT_FOUND''), sample_db_rotated) \<and>
   refresh_route sample_env sample_db_rotated 1700000060000 (Some (Garbage [])) False =
     (Fail 400 ''Refresh token required'' (Some ''REFRESH_TOKEN_REQUIRED''), sample_db_rotated) \<and>
   refreshTokens sample_env [sample_user] 1700000050000 (Some sample_refresh_token) True =
     (Inr sample_rotated_reply, sample_db_rotated) \<and>
   refreshTokens sample_env sample_db_rotated 1700000060000 (Some sample_refresh_token) False =
     (Inl (PlainError ''Refresh token mismatch''), sample_db_rotated)"
proof -
  let ?u' = "sample_user\<lparr>u_refreshToken := Some sample_new_refresh,
                          u_lastActive := Some 1700000050000\<rparr>"
  have d0: "jwt_decode sample_refresh_token = Some sample_refresh_claims"
    by (simp add: sample_refresh_decoded)
  have iat: "p_iat sample_refresh_claims \<noteq> Some (now_seconds 1700000050000)"
    by (simp add: sample_refresh_claims_def now_seconds_def)
  have ne: "u_refreshToken ?u' \<noteq> Some sample_refresh_token"
    by (simp add: sample_new_refresh_def sample_refresh_token_def)
  have ty: "p_type sample_refresh_claims = Some ''refresh''"
    by (simp add: sample_refresh_claims_def)
  note first = refresh_rotation [where e = sample_env and db = "[sample_user]"
      and now = 1700000050000 and rt = sample_refresh_token and r = True
      and ok = sample_rotated_reply and db' = sample_db_rotated and ?d0.0 = sample_refresh_claims]
  note success = first [THEN conjunct1, THEN mp, OF sample_first_refresh_reply]
  from success [THEN conjunct1] obtain d :: payload and u :: user where
    f: "findById [sample_user] (p_id d) = Some u"
    and minted: "jwt_decode (rr_refreshToken sample_rotated_reply) =
       Some \<lparr>p_id = Some (u_id u), p_type = Some ''refresh'', p_fp = None,
             p_iat = Some (now_seconds 1700000050000),
             p_exp = Some (now_seconds 1700000050000 + (if True then span_30d else span_7d)),
             p_iss = Some (config_issuer sample_env),
             p_aud = Some (config_audience sample_env)\<rparr>"
    by blast
  from f have "u = sample_user"
    by (auto simp: findById_def split: option.splits if_splits)
  with minted have w2: "jwt_decode (rr_refreshToken sample_rotated_reply) =
       Some \<lparr>p_id = Some (u_id sample_user), p_type = Some ''refresh'', p_fp = None,
             p_iat = Some (now_seconds 1700000050000),
             p_exp = Some (now_seconds 1700000050000 + span_30d),
             p_iss = Some (config_issuer sample_env),
             p_aud = Some (config_audience sample_env)\<rparr>"
    by simp
  have hyp: "jwt_decode sample_refresh_token = Some sample_refresh_claims \<and>
       (p_iat sample_refresh_claims \<noteq> Some (now_seconds 1700000050000) \<or>
        p_exp sample_refresh_claims \<noteq>
          Some (now_seconds 1700000050000 + (if True then span_30d else span_7d)))"
    using d0 iat by simp
  note rotated = success [THEN conjunct2, THEN mp, OF hyp]
  note w3 = rotated [THEN conjunct1]
  note later = rotated [THEN conjunct2]
  from later have w4: "refresh_route sample_env sample_db_rotated 1700000060000
       (Some sample_refresh_token) False =
     (Fail 401 ''Refresh token mismatch'' (Some ''REFRESH_TOKEN_MISMATCH''), sample_db_rotated)"
    by (simp add: sample_refresh_claims_def now_seconds_def)
  from later have w5: "refresh_route sample_env sample_db_rotated 1700604800000
       (Some sample_refresh_token) False =
     (Fail 401 ''Refresh token expired'' (Some ''REFRESH_TOKEN_EXPIRED''), sample_db_rotated)"
    by (simp add: sample_refresh_claims_def now_seconds_def)
  note invalid = refresh_rotation [where e = sample_env and db = sample_db_rotated
      and now = 1700000060000 and t = "Garbage ''not-a-token''" and r = False
      and x = JsonWebTokenError,
      THEN conjunct2, THEN conjunct2, THEN conjunct2, THEN conjunct2, THEN conjunct2,
      THEN conjunct1]
  from invalid sample_refresh_verify(4)
  have w6: "refresh_route sample_env sample_db_rotated 1700000060000
       (Some (Garbage ''not-a-token'')) False =
     (Fail 401 ''Invalid refresh token'' (Some ''INVALID_REFRESH_TOKEN''), sample_db_rotated)"
    by simp
  note wrong_type = refresh_rotation [where e = sample_env and db = sample_db_rotated
      and now = 1700000060000 and t = sample_wrong_type_token and r = False
      and d = "sample_refresh_claims\<lparr>p_type := Some ''access''\<rparr>",
      THEN conjunct2, THEN conjunct2, THEN conjunct2, THEN conjunct2, THEN conjunct2,
      THEN conjunct2, THEN conjunct1]
  from wrong_type sample_refresh_verify(5)
  have w7: "refresh_route sample_env sample_db_rotated 1700000060000
       (Some sample_wrong_type_token) False =
     (Fail 401 ''Invalid token type'' (Some ''INVALID_TOKEN_TYPE''), sample_db_rotated)"
    by simp
  note no_user = refresh_rotation [where e = sample_env and db = sample_db_rotated
      and now = 1700000060000 and t = sample_unknown_user_token and r = False
      and d = "sample_refresh_claims\<lparr>p_id := Some 8\<rparr>",
      THEN conjunct2, THEN conjunct2, THEN conjunct2, THEN conjunct2, THEN conjunct2,
      THEN conjunct2, THEN conjunct2, THEN conjunct1]
  from no_user sample_refresh_verify(6) sample_rotated_find(3) ty
  have w8: "refresh_route sample_env sample_db_rotated 1700000060000
       (Some sample_unknown_user_token) False =
     (Fail 401 ''User not found'' (Some ''USER_NOT_FOUND''), sample_db_rotated)"
    by simp
  note w9 = refresh_rotation [where e = sample_env and db = sample_db_rotated
      and now = 1700000060000 and r = False,
      THEN conjunct2, THEN conjunct2, THEN conjunct2, THEN conjunct1]
  note helper = refresh_rotation [where e = sample_env and db = sample_db_rotated
      and now = 1700000060000 and t = sample_refresh_token and r = False
      and d = sample_refresh_claims and u = ?u',
      THEN conjunct2, THEN conjunct2, THEN conjunct2, THEN conjunct2, THEN conjunct2,
      THEN conjunct2, THEN conjunct2, THEN conjunct2, THEN conjunct2, THEN conjunct2,
      THEN conjunct2, THEN conjunct1]
  from helper sample_verifyToken_refresh(2) sample_rotated_find(1) ty ne
  have w10: "refreshTokens sample_env sample_db_rotated 1700000060000
       (Some sample_refresh_token) False =
     (Inl (PlainError ''Refresh token mismatch''), sample_db_rotated)"
    by blast
  from sample_first_refresh_reply w2 d0 iat w3 w4 w5 w6 w7 w8 w9 sample_helper_refresh w10
  show ?thesis by (intro conjI)
qed

text \<open>
  C1 as stated fails: after a successful refresh, the rotated-out token presented once
  it has expired is answered with \<^verbatim>\<open>REFRESH_TOKEN_EXPIRED\<close>, and a string that is no token
  with \<^verbatim>\<open>INVALID_REFRESH_TOKEN\<close>; neither equals the stored token.
\<close>

theorem refresh_rotation_counterexample:
  "refresh_route sample_env [sample_user] 1700000050000 (Some sample_refresh_token) True =
     (Ok \<lparr>rr_accessToken = sample_new_access, rr_refreshToken = sample_new_refresh,
          rr_expiresIn = ''7d''\<rparr>, sample_db_rotated) \<and>
   u_refreshToken (hd sample_db_rotated) \<noteq> Some sample_refresh_token \<and>
   refresh_route sample_env sample_db_rotated 1700604800000 (Some sample_refresh_token) False =
     (Fail 401 ''Refresh token expired'' (Some ''REFRESH_TOKEN_EXPIRED''), sample_db_rotated) \<and>
   u_refreshToken (hd sample_db_rotated) \<noteq> Some (Garbage ''not-a-token'') \<and>
   refresh_route sample_env sample_db_rotated 1700000060000 (Some (Garbage ''not-a-token'')) False =
     (Fail 401 ''Invalid refresh token'' (Some ''INVALID_REFRESH_TOKEN''), sample_db_rotated)"
proof -
  have 1: "u_refreshToken (hd sample_db_rotated) \<noteq> Some sample_refresh_token"
    by (simp add: sample_db_rotated_def sample_new_refresh_def sample_refresh_token_def)
  have 2: "refresh_route sample_env sample_db_rotated 1700604800000 (Some sample_refresh_token) False =
     (Fail 401 ''Refresh token expired'' (Some ''REFRESH_TOKEN_EXPIRED''), sample_db_rotated)"
    by (simp add: refresh_route_def jwt_verify_def sample_env_def sample_refresh_token_def
          truthy_def now_seconds_def)
  have 3: "u_refreshToken (hd sample_db_rotated) \<noteq> Some (Garbage ''not-a-token'')"
    by (simp add: sample_db_rotated_def sample_new_refresh_def)
  have 4: "refresh_route sample_env sample_db_rotated 1700000060000 (Some (Garbage ''not-a-token'')) False =
     (Fail 401 ''Invalid refresh token'' (Some ''INVALID_REFRESH_TOKEN''), sample_db_rotated)"
    by (simp add: refresh_route_def jwt_verify_def)
  from sample_first_refresh 1 2 3 4 show ?thesis by simp
qed

text \<open>
  Rotation has no effect when the refresh runs in the clock second in which the
  presented token was issued, with the same profile: signing is deterministic, so the
  token minted is the presented one, and it is accepted again afterwards.
\<close>

lemma refresh_same_second_sample:
  "refresh_route sample_env [sample_user] 1700000000400 (Some sample_refresh_token) False =
     (Ok \<lparr>rr_accessToken = sample_access_token, rr_refreshToken = sample_refresh_token,
          rr_expiresIn = ''15m''\<rparr>,
      [sample_user\<lparr>u_lastActive := Some 1700000000400\<rparr>]) \<and>
   refresh_route sample_env [sample_user\<lparr>u_lastActive := Some 1700000000400\<rparr>] 1700000000999
       (Some sample_refresh_token) False =
     (Ok \<lparr>rr_accessToken = sample_access_token, rr_refreshToken = sample_refresh_token,
          rr_expiresIn = ''15m''\<rparr>,
      [sample_user\<lparr>u_lastActive := Some 1700000000999\<rparr>])"
  by (simp add: refresh_route_def jwt_verify_def sample_env_def sample_refresh_token_def
        sample_user_def truthy_def config_issuer_def config_audience_def js_or_def
        now_seconds_def findById_def generateTokens_def jwt_sign_def claims_of_def
        span_7d_def span_15m_def save_def sample_access_token_def sample_access_claims_def)

section \<open>The fingerprint codec and issuer, audience\<close>

text \<open>
  C4 fails on \<^verbatim>\<open>generateSecureTokens\<close> and \<^verbatim>\<open>verifyTokenWithFingerprint\<close>: the pair
  minted for a login carries neither issuer nor audience, although
  \<^verbatim>\<open>generateAccessToken\<close> stamps both at the same input; \<^verbatim>\<open>verifyToken\<close> rejects
  that access token; and \<^verbatim>\<open>verifyTokenWithFingerprint\<close> accepts a token stamped with
  another issuer and audience.
\<close>

theorem secure_tokens_lack_issuer:
  "generateSecureTokens sample_env 7 False (Some ''fp-phone'') 1700000000000 =
     Inr \<lparr>tk_accessToken = sample_secure_access, tk_refreshToken = sample_secure_refresh\<rparr> \<and>
   map_option p_iss (jwt_decode sample_secure_access) = Some None \<and>
   map_option p_aud (jwt_decode sample_secure_access) = Some None \<and>
   map_option p_iss (jwt_decode sample_secure_refresh) = Some None \<and>
   map_option p_aud (jwt_decode sample_secure_refresh) = Some None \<and>
   generateAccessToken sample_env 7 False 1700000000000 = Inr sample_access_token \<and>
   map_option p_iss (jwt_decode sample_access_token) = Some (Some ''marketsphere-api'') \<and>
   map_option p_aud (jwt_decode sample_access_token) = Some (Some ''marketsphere-app'') \<and>
   verifyToken sample_env sample_secure_access False 1700000100000 = Inl JsonWebTokenError \<and>
   verifyTokenWithFingerprint sample_env (Jwt sample_foreign_claims ''access-key'')
       (Some ''fp-phone'') False 1700000100000 = Inr sample_foreign_claims"
proof -
  have 1: "generateSecureTokens sample_env 7 False (Some ''fp-phone'') 1700000000000 =
     Inr \<lparr>tk_accessToken = sample_secure_access, tk_refreshToken = sample_secure_refresh\<rparr>"
    by (simp add: generateSecureTokens_def jwt_sign_def claims_of_def sample_env_def
          now_seconds_def span_15m_def span_7d_def sample_secure_access_def
          sample_secure_refresh_def)
  have 2: "generateAccessToken sample_env 7 False 1700000000000 = Inr sample_access_token"
    by (simp add: generateAccessToken_def jwt_sign_def claims_of_def sample_env_def truthy_def
          now_seconds_def span_15m_def sample_access_token_def sample_access_claims_def
          config_issuer_def config_audience_def js_or_def)
  have 3: "verifyToken sample_env sample_secure_access False 1700000100000 = Inl JsonWebTokenError"
    by (simp add: verifyToken_def jwt_verify_def sample_env_def truthy_def now_seconds_def
          sample_secure_access_def)
  have 4: "verifyTokenWithFingerprint sample_env (Jwt sample_foreign_claims ''access-key'')
       (Some ''fp-phone'') False 1700000100000 = Inr sample_foreign_claims"
    by (simp add: verifyTokenWithFingerprint_def jwt_verify_def sample_env_def truthy_def
          now_seconds_def sample_foreign_claims_def)
  from 1 2 3 4 show ?thesis
    by (simp add: sample_secure_access_def sample_secure_refresh_def sample_access_token_def
          sample_access_claims_def)
qed

section \<open>Properties of the response interceptor\<close>

lemma on_rejected_retried:
  "rc_retry req \<Longrightarrow> on_rejected status req refreshed = (False, RejectError)"
  by (simp add: on_rejected_def)

lemma on_rejected_marks:
  "on_rejected status req refreshed = (called, Retry req') \<Longrightarrow> rc_retry req' \<and> \<not> rc_retry req"
  by (auto simp: on_rejected_def Let_def split: if_splits settlement.splits)

lemma on_rejected_excluded:
  "isExcludedPath (rc_url req) \<Longrightarrow> on_rejected status req refreshed = (False, RejectError)"
  by (simp add: on_rejected_def)

text \<open>
  C8 fails on the payment endpoints of this repository: the only payment path the
  interceptor excludes is \<^verbatim>\<open>'/payment/intent'\<close>; a 401 from
  \<^verbatim>\<open>/api/payment/create-order\<close> or \<^verbatim>\<open>/api/payment/verify\<close> calls
  \<^verbatim>\<open>refreshAccessToken\<close> and sends the request again.
\<close>

theorem payment_401_is_retried:
  "\<not> isExcludedPath ''/api/payment/create-order'' \<and>
   \<not> isExcludedPath ''/api/payment/verify'' \<and>
   isExcludedPath ''/api/payment/intent'' \<and>
   on_rejected (Some 401) sample_payment_request (Resolved (Some ''new'')) =
     (True, Retry \<lparr>rc_url = ''/api/payment/create-order'', rc_retry = True,
                   rc_authorization = Some ''Bearer new''\<rparr>)"
  by (simp add: isExcludedPath_def on_rejected_def sample_payment_request_def truthy_def)

section \<open>Properties of login\<close>

lemma login_route_Fail_keeps:
  "login_route chk e db now email password remember = (Fail s m c, db') \<Longrightarrow> db' = db"
  by (auto simp: login_route_def Let_def split: if_splits option.splits sum.splits)

lemma login_enhanced_Fail_keeps:
  "login_enhanced chk sha e db now req email password remember = (Fail s m c, db') \<Longrightarrow> db' = db"
  by (auto simp: login_enhanced_def Let_def split: if_splits option.splits sum.splits)

lemma login_route_unknown_email:
  assumes "truthy email" and "truthy password"
      and "findOne_email db (toLowerCase (the email)) = None"
  shows "login_route chk e db now email password remember =
           (Fail 401 ''Invalid credentials'' None, db)"
  using assms by (simp add: login_route_def)

lemma login_route_wrong_password:
  assumes "truthy email" and "truthy password"
      and "findOne_email db (toLowerCase (the email)) = Some u" and "u_isVerified u"
      and "\<not> chk (the password) (u_password u)"
  shows "login_route chk e db now email password remember =
           (Fail 401 ''Invalid credentials'' None, db)"
  using assms by (simp add: login_route_def)

lemma login_route_unverified:
  assumes "truthy email" and "truthy password"
      and "findOne_email db (toLowerCase (the email)) = Some u" and "\<not> u_isVerified u"
  shows "login_route chk e db now email password remember =
           (Fail 401 ''Please verify your email first'' None, db)"
  using assms by (simp add: login_route_def)

lemma login_enhanced_unknown_email:
  assumes "truthy email" and "truthy password"
      and "findOne_email db (toLowerCase (the email)) = None"
  shows "login_enhanced chk sha e db now req email password remember =
           (Fail 401 ''Invalid credentials'' (Some ''INVALID_CREDENTIALS''), db)"
  using assms by (simp add: login_enhanced_def)

lemma login_enhanced_wrong_password:
  assumes "truthy email" and "truthy password"
      and "findOne_email db (toLowerCase (the email)) = Some u"
      and "\<not> chk (the password) (u_password u)"
  shows "login_enhanced chk sha e db now req email password remember =
           (Fail 401 ''Invalid credentials'' (Some ''INVALID_CREDENTIALS''), db)"
  using assms by (simp add: login_enhanced_def)

lemma login_enhanced_suspended:
  assumes "truthy email" and "truthy password"
      and "findOne_email db (toLowerCase (the email)) = Some u"
      and "chk (the password) (u_password u)" and "u_isSuspended u"
  shows "login_enhanced chk sha e db now req email password remember =
           (Fail 403 ''Account suspended'' (Some ''ACCOUNT_SUSPENDED''), db)"
  using assms by (simp add: login_enhanced_def)

text \<open>
  C5, as the code has it. With email and password given: the login of routes/auth.js
  answers 401 \<^verbatim>\<open>'Invalid credentials'\<close> for an unknown email and for a wrong password of
  a verified account alike, and 401 \<^verbatim>\<open>'Please verify your email first'\<close> for an
  unverified account; the login of the auth-enhanced routes answers 401
  \<^verbatim>\<open>INVALID_CREDENTIALS\<close> for an unknown email and for a wrong password alike, and 403
  \<^verbatim>\<open>ACCOUNT_SUSPENDED\<close> for a suspended account with the right password. Every failing
  login, of either route, returns no tokens and leaves the collection, and so every
  stored refresh token, as it was.
\<close>

theorem login_failures:
  "(truthy email \<and> truthy password \<longrightarrow>
      (findOne_email db (toLowerCase (the email)) = None \<longrightarrow>
         login_route chk e db now email password remember =
           (Fail 401 ''Invalid credentials'' None, db) \<and>
         login_enhanced chk sha e db now req email password remember =
           (Fail 401 ''Invalid credentials'' (Some ''INVALID_CREDENTIALS''), db)) \<and>
      (findOne_email db (toLowerCase (the email)) = Some u \<longrightarrow>
         (u_isVerified u \<and> \<not> chk (the password) (u_password u) \<longrightarrow>
            login_route chk e db now email password remember =
              (Fail 401 ''Invalid credentials'' None, db)) \<and>
         (\<not> u_isVerified u \<longrightarrow>
            login_route chk e db now email password remember =
              (Fail 401 ''Please verify your email first'' None, db)) \<and>
         (\<not> chk (the password) (u_password u) \<longrightarrow>
            login_enhanced chk sha e db now req email password remember =
              (Fail 401 ''Invalid credentials'' (Some ''INVALID_CREDENTIALS''), db)) \<and>
         (chk (the password) (u_password u) \<and> u_isSuspended u \<longrightarrow>
            login_enhanced chk sha e db now req email password remember =
              (Fail 403 ''Account suspended'' (Some ''ACCOUNT_SUSPENDED''), db)))) \<and>
   (\<forall>s m c db'. login_route chk e db now email password remember = (Fail s m c, db') \<longrightarrow> db' = db) \<and>
   (\<forall>s m c db'. login_enhanced chk sha e db now req email password remember = (Fail s m c, db')
      \<longrightarrow> db' = db)"
  using login_route_unknown_email [of email password db chk e now remember]
    login_route_wrong_password [of email password db u chk e now remember]
    login_route_unverified [of email password db u chk e now remember]
    login_enhanced_unknown_email [of email password db chk sha e now req remember]
    login_enhanced_wrong_password [of email password db u chk sha e now req remember]
    login_enhanced_suspended [of email password db u chk sha e now req remember]
    login_route_Fail_keeps [of chk e db now email password remember]
    login_enhanced_Fail_keeps [of chk sha e db now req email password remember]
  by blast

lemma sample_lower: "toLowerCase ''Ada@X.com'' = ''ada@x.com''"
  by code_simp

lemma sample_find_unverified:
  "findOne_email [sample_unverified] (toLowerCase (the (Some ''Ada@X.com''))) = Some sample_unverified"
  by (simp add: sample_lower findOne_email_def sample_unverified_def sample_user_def)

lemma sample_find_suspended:
  "findOne_email [sample_suspended] (toLowerCase (the (Some ''Ada@X.com''))) = Some sample_suspended"
  by (simp add: sample_lower findOne_email_def sample_suspended_def sample_user_def)

theorem login_failures_witness:
  "truthy (Some ''Ada@X.com'') \<and> truthy (Some ''correct'') \<and>
   findOne_email [sample_unverified] (toLowerCase (the (Some ''Ada@X.com''))) = Some sample_unverified \<and>
   \<not> u_isVerified sample_unverified \<and>
   login_route sample_compare sample_env [sample_unverified] 1700000100000
       (Some ''Ada@X.com'') (Some ''correct'') False =
     (Fail 401 ''Please verify your email first'' None, [sample_unverified]) \<and>
   \<not> sample_compare (the (Some ''wrong'')) (u_password sample_unverified) \<and>
   login_enhanced sample_compare id sample_env [sample_unverified] 1700000100000 sample_request
       (Some ''Ada@X.com'') (Some ''wrong'') False =
     (Fail 401 ''Invalid credentials'' (Some ''INVALID_CREDENTIALS''), [sample_unverified]) \<and>
   findOne_email [sample_suspended] (toLowerCase (the (Some ''Ada@X.com''))) = Some sample_suspended \<and>
   sample_compare (the (Some ''correct'')) (u_password sample_suspended) \<and>
   u_isSuspended sample_suspended \<and>
   login_enhanced sample_compare id sample_env [sample_suspended] 1700000100000 sample_request
       (Some ''Ada@X.com'') (Some ''correct'') False =
     (Fail 403 ''Account suspended'' (Some ''ACCOUNT_SUSPENDED''), [sample_suspended])"
proof -
  have h1: "truthy (Some ''Ada@X.com'')" and h2: "truthy (Some ''correct'')"
    and h2': "truthy (Some ''wrong'')"
    by (simp_all add: truthy_def)
  have h3: "\<not> u_isVerified sample_unverified"
    by (simp add: sample_unverified_def)
  have h4: "\<not> sample_compare (the (Some ''wrong'')) (u_password sample_unverified)"
    by (simp add: sample_compare_def sample_unverified_def sample_user_def)
  have h5: "sample_compare (the (Some ''correct'')) (u_password sample_suspended)"
    and h6: "u_isSuspended sample_suspended"
    by (simp_all add: sample_compare_def sample_suspended_def sample_user_def)
  from login_failures [where email = "Some ''Ada@X.com''" and password = "Some ''correct''"
      and db = "[sample_unverified]" and u = sample_unverified and chk = sample_compare
      and e = sample_env and now = 1700000100000 and remember = False]
    h1 h2 h3 sample_find_unverified
  have a: "login_route sample_compare sample_env [sample_unverified] 1700000100000
       (Some ''Ada@X.com'') (Some ''correct'') False =
     (Fail 401 ''Please verify your email first'' None, [sample_unverified])"
    by blast
  from login_failures [where email = "Some ''Ada@X.com''" and password = "Some ''wrong''"
      and db = "[sample_unverified]" and u = sample_unverified and chk = sample_compare
      and e = sample_env and now = 1700000100000 and remember = False and sha = id
      and req = sample_request]
    h1 h2' h4 sample_find_unverified
  have b: "login_enhanced sample_compare id sample_env [sample_unverified] 1700000100000
       sample_request (Some ''Ada@X.com'') (Some ''wrong'') False =
     (Fail 401 ''Invalid credentials'' (Some ''INVALID_CREDENTIALS''), [sample_unverified])"
    by blast
  from login_failures [where email = "Some ''Ada@X.com''" and password = "Some ''correct''"
      and db = "[sample_suspended]" and u = sample_suspended and chk = sample_compare
      and e = sample_env and now = 1700000100000 and remember = False and sha = id
      and req = sample_request]
    h1 h2 h5 h6 sample_find_suspended
  have c: "login_enhanced sample_compare id sample_env [sample_suspended] 1700000100000
       sample_request (Some ''Ada@X.com'') (Some ''correct'') False =
     (Fail 403 ''Account suspended'' (Some ''ACCOUNT_SUSPENDED''), [sample_suspended])"
    by blast
  from h1 h2 h3 h4 h5 h6 sample_find_unverified sample_find_suspended a b c
  show ?thesis by blast
qed

text \<open>
  C5 as stated fails: the login of routes/auth.js tells an unverified account
  (\<^verbatim>\<open>'Please verify your email first'\<close>) from a wrong password
  (\<^verbatim>\<open>'Invalid credentials'\<close>).
\<close>

theorem login_failures_counterexample:
  "login_route sample_compare sample_env [sample_unverified] 1700000100000
       (Some ''Ada@X.com'') (Some ''correct'') False =
     (Fail 401 ''Please verify your email first'' None, [sample_unverified]) \<and>
   login_route sample_compare sample_env [sample_user] 1700000100000
       (Some ''Ada@X.com'') (Some ''wrong'') False =
     (Fail 401 ''Invalid credentials'' None, [sample_user]) \<and>
   ''Please verify your email first'' \<noteq> ''Invalid credentials''"
  by (simp add: login_route_def truthy_def sample_lower findOne_email_def sample_unverified_def
        sample_user_def sample_compare_def)

text \<open>
  The login of routes/auth.js does not read \<^verbatim>\<open>isSuspended\<close>: a suspended, verified account
  with the right password is logged in and its stored refresh token replaced.
\<close>

lemma login_route_suspended_sample:
  "\<exists>ok u'. login_route sample_compare sample_env [sample_suspended] 1700000100000
       (Some ''Ada@X.com'') (Some ''correct'') False = (Ok ok, [u']) \<and>
     u_refreshToken u' = Some (tk_refreshToken (lr_tokens ok)) \<and> u_isSuspended u'"
  by (simp add: login_route_def truthy_def sample_lower findOne_email_def sample_suspended_def
        sample_user_def sample_compare_def generateTokens_def jwt_sign_def sample_env_def
        Let_def save_def)

section \<open>Properties of the blacklists\<close>

lemma mb_step_keeps:
  assumes "tokens k = Some e \<or> (tokens k = None \<and> e < lo)"
      and "lo \<le> fst c" and "\<not> adds_hash h k c"
  shows "mb_step h tokens c k = Some e \<or> (mb_step h tokens c k = None \<and> e < fst c)"
proof (cases c)
  case (Pair now op)
  show ?thesis
  proof (cases op)
    case (Add token ttl)
    with Pair assms show ?thesis by (auto simp: mb_add_def Let_def)
  next
    case (Has token)
    with Pair assms show ?thesis
      by (auto simp: mb_has_def Let_def split: option.splits if_splits)
  next
    case Cleanup
    with Pair assms show ?thesis
      by (auto simp: mb_cleanup_def split: option.splits if_splits)
  qed
qed

lemma mb_run_keeps:
  assumes "tokens k = Some e \<or> (tokens k = None \<and> e < lo)"
      and "sorted (map fst calls)"
      and "\<forall>c\<in>set calls. lo \<le> fst c \<and> fst c \<le> t \<and> \<not> adds_hash h k c"
      and "lo \<le> t"
  shows "mb_run h tokens calls k = Some e \<or> (mb_run h tokens calls k = None \<and> e < t)"
  using assms
proof (induction calls arbitrary: tokens lo)
  case Nil
  then show ?case by (auto simp: mb_run_def)
next
  case (Cons c calls)
  have 1: "mb_step h tokens c k = Some e \<or> (mb_step h tokens c k = None \<and> e < fst c)"
    using Cons.prems by (intro mb_step_keeps [where lo = lo]) auto
  have 2: "sorted (map fst calls)" using Cons.prems(2) by simp
  have 3: "\<forall>c'\<in>set calls. fst c \<le> fst c' \<and> fst c' \<le> t \<and> \<not> adds_hash h k c'"
    using Cons.prems(2,3) by auto
  have 4: "fst c \<le> t" using Cons.prems(3) by simp
  from Cons.IH [of "mb_step h tokens c" "fst c", OF 1 2 3 4] show ?case by (simp add: mb_run_def)
qed

lemma mb_has_reads:
  assumes "tokens (h token) = Some e \<or> (tokens (h token) = None \<and> e < t)"
      and "0 < t"
  shows "fst (mb_has h tokens token t) = (t \<le> e)"
    and "e < t \<Longrightarrow> e \<noteq> 0 \<Longrightarrow> snd (mb_has h tokens token t) (h token) = None"
  using assms by (auto simp: mb_has_def Let_def split: option.splits)

lemma memory_blacklist_window:
  assumes "0 < now0" and "sorted (map fst calls)"
      and "\<forall>c\<in>set calls. now0 \<le> fst c \<and> fst c \<le> t \<and> \<not> adds_hash h (h token) c"
      and "now0 \<le> t"
  shows "fst (mb_has h (mb_run h (snd (mb_add h tokens token ttl now0)) calls) token t)
           = (t \<le> now0 + ttl)"
    and "now0 + ttl < t \<Longrightarrow> now0 + ttl \<noteq> 0 \<Longrightarrow>
         snd (mb_has h (mb_run h (snd (mb_add h tokens token ttl now0)) calls) token t) (h token)
           = None"
proof -
  let ?m0 = "snd (mb_add h tokens token ttl now0)"
  have 0: "?m0 (h token) = Some (now0 + ttl) \<or> (?m0 (h token) = None \<and> now0 + ttl < now0)"
    by (simp add: mb_add_def Let_def)
  have 1: "mb_run h ?m0 calls (h token) = Some (now0 + ttl) \<or>
           (mb_run h ?m0 calls (h token) = None \<and> now0 + ttl < t)"
    by (rule mb_run_keeps [of ?m0 "h token" "now0 + ttl" now0 calls t h,
          OF 0 assms(2) assms(3) assms(4)])
  have 2: "0 < t" using assms(1,4) by simp
  show "fst (mb_has h (mb_run h ?m0 calls) token t) = (t \<le> now0 + ttl)"
    using mb_has_reads(1) [of "mb_run h ?m0 calls" h token "now0 + ttl" t, OF 1 2] .
  show "now0 + ttl < t \<Longrightarrow> now0 + ttl \<noteq> 0 \<Longrightarrow>
        snd (mb_has h (mb_run h ?m0 calls) token t) (h token) = None"
    using mb_has_reads(2) [of "mb_run h ?m0 calls" h token "now0 + ttl" t, OF 1 2] .
qed

lemma redis_ttl_arith:
  fixes now0 x :: int
  shows "now0 + (x - now0 div 1000) * 1000 = x * 1000 + now0 mod 1000"
proof -
  have "now0 = now0 div 1000 * 1000 + now0 mod 1000" by simp
  then show ?thesis by (simp add: algebra_simps)
qed

lemma redis_blacklist_window:
  assumes "redis st = Some r" and "redisAvailable st" and "\<not> rd_failing r"
      and "jwt_decode token = Some d" and "p_exp d = Some x" and "now_seconds now0 < x"
      and "x \<noteq> 0"
  shows "isTokenBlacklisted sha (addToBlacklist sha st token now0) token t
           = (t < x * 1000 + now0 mod 1000)"
proof -
  have "addToBlacklist sha st token now0 =
          st\<lparr>redis := Some (r\<lparr>rd_store := (rd_store r)(blacklist_key (sha token) \<mapsto>
                 now0 + (x - now_seconds now0) * 1000)\<rparr>)\<rparr>"
    using assms by (simp add: addToBlacklist_def redis_set_def Let_def)
  then show ?thesis
    using assms(2,3) redis_ttl_arith [of now0 x]
    by (simp add: isTokenBlacklisted_def redis_exists_def now_seconds_def)
qed


text \<open>
  C7, as the code has it. In-memory store: after \<^verbatim>\<open>add(token, ttl)\<close>, and whatever
  lookups, cleanups and adds of tokens with another hash run afterwards at non-decreasing
  clock readings, \<^verbatim>\<open>has(token)\<close> reports true at every clock up to and including the
  recorded expiry \<^verbatim>\<open>now + ttl\<close>, and false at every clock after it, when it also deletes
  the entry (unless the recorded expiry is 0, which \<^verbatim>\<open>has\<close> takes for no entry). The
  clock counts from 1970 and is positive. Redis store: for an unexpired token that
  \<^verbatim>\<open>addToBlacklist\<close> stores while Redis is available, \<^verbatim>\<open>isTokenBlacklisted\<close> (Redis
  available) reports true exactly while the clock, in milliseconds, is before
  \<^verbatim>\<open>exp * 1000\<close> plus the milliseconds part of the clock at the revocation; so the entry
  outlives the token's own expiry by less than a second.
\<close>

theorem blacklist_until_expiry:
  "(0 < now0 \<and> sorted (map fst calls) \<and>
    (\<forall>c\<in>set calls. now0 \<le> fst c \<and> fst c \<le> t \<and> \<not> adds_hash h (h token) c) \<and> now0 \<le> t \<longrightarrow>
      fst (mb_has h (mb_run h (snd (mb_add h tokens token ttl now0)) calls) token t)
        = (t \<le> now0 + ttl) \<and>
      (now0 + ttl < t \<and> now0 + ttl \<noteq> 0 \<longrightarrow>
         snd (mb_has h (mb_run h (snd (mb_add h tokens token ttl now0)) calls) token t) (h token)
           = None)) \<and>
   (redis st = Some r \<and> redisAvailable st \<and> \<not> rd_failing r \<and> jwt_decode token = Some d \<and>
    p_exp d = Some x \<and> x \<noteq> 0 \<and> now_seconds now0 < x \<longrightarrow>
      isTokenBlacklisted sha (addToBlacklist sha st token now0) token t
        = (t < x * 1000 + now0 mod 1000) \<and>
      0 \<le> now0 mod 1000 \<and> now0 mod 1000 < 1000)"
  using memory_blacklist_window [where ?now0.0 = now0 and calls = calls and t = t and h = h
      and token = token and tokens = tokens and ttl = ttl]
    redis_blacklist_window [of st r token d x now0 sha t]
  by simp

lemma sample_calls_ok:
  "sorted (map fst sample_calls) \<and>
   (\<forall>c\<in>set sample_calls. 1700000000000 \<le> fst c \<and> fst c \<le> 1700000900000 \<and>
       \<not> adds_hash sample_sha (sample_sha sample_access_token) c)"
  by (simp add: sample_calls_def sample_sha_def sample_access_token_def)

lemma sample_calls_ok_later:
  "sorted (map fst sample_calls) \<and>
   (\<forall>c\<in>set sample_calls. 1700000000000 \<le> fst c \<and> fst c \<le> 1700000900001 \<and>
       \<not> adds_hash sample_sha (sample_sha sample_access_token) c)"
  by (simp add: sample_calls_def sample_sha_def sample_access_token_def)

theorem blacklist_until_expiry_witness:
  "(0::int) < 1700000000000 \<and> sorted (map fst sample_calls) \<and>
   list_all (\<lambda>c. 1700000000000 \<le> fst c \<and> fst c \<le> 1700000900000 \<and>
       \<not> adds_hash sample_sha (sample_sha sample_access_token) c) sample_calls \<and>
   fst (mb_has sample_sha
          (mb_run sample_sha (snd (mb_add sample_sha Map.empty sample_access_token 900000
             1700000000000)) sample_calls) sample_access_token 1700000900000) \<and>
   \<not> fst (mb_has sample_sha
          (mb_run sample_sha (snd (mb_add sample_sha Map.empty sample_access_token 900000
             1700000000000)) sample_calls) sample_access_token 1700000900001) \<and>
   snd (mb_has sample_sha
          (mb_run sample_sha (snd (mb_add sample_sha Map.empty sample_access_token 900000
             1700000000000)) sample_calls) sample_access_token 1700000900001)
     (sample_sha sample_access_token) = None \<and>
   redis sample_redis = Some \<lparr>rd_failing = False, rd_store = Map.empty\<rparr> \<and>
   redisAvailable sample_redis \<and>
   jwt_decode sample_access_token = Some sample_access_claims \<and>
   p_exp sample_access_claims = Some 1700000900 \<and>
   now_seconds 1700000000999 < 1700000900 \<and>
   isTokenBlacklisted sample_sha
     (addToBlacklist sample_sha sample_redis sample_access_token 1700000000999)
     sample_access_token 1700000900998 \<and>
   \<not> isTokenBlacklisted sample_sha
     (addToBlacklist sample_sha sample_redis sample_access_token 1700000000999)
     sample_access_token 1700000900999"
proof -
  have m: "fst (mb_has sample_sha
          (mb_run sample_sha (snd (mb_add sample_sha Map.empty sample_access_token 900000
             1700000000000)) sample_calls) sample_access_token 1700000900000)"
    using blacklist_until_expiry [where ?now0.0 = 1700000000000 and ttl = 900000
        and calls = sample_calls and t = 1700000900000 and h = sample_sha
        and token = sample_access_token and tokens = Map.empty]
      sample_calls_ok
    by simp
  have m': "\<not> fst (mb_has sample_sha
          (mb_run sample_sha (snd (mb_add sample_sha Map.empty sample_access_token 900000
             1700000000000)) sample_calls) sample_access_token 1700000900001)"
    and m'': "snd (mb_has sample_sha
          (mb_run sample_sha (snd (mb_add sample_sha Map.empty sample_access_token 900000
             1700000000000)) sample_calls) sample_access_token 1700000900001)
          (sample_sha sample_access_token) = None"
    using blacklist_until_expiry [where ?now0.0 = 1700000000000 and ttl = 900000
        and calls = sample_calls and t = 1700000900001 and h = sample_sha
        and token = sample_access_token and tokens = Map.empty]
      sample_calls_ok_later
    by simp_all
  have r1: "redis sample_redis = Some \<lparr>rd_failing = False, rd_store = Map.empty\<rparr>"
    and r2: "redisAvailable sample_redis"
    and r3: "\<not> rd_failing \<lparr>rd_failing = False, rd_store = Map.empty\<rparr>"
    and r4: "jwt_decode sample_access_token = Some sample_access_claims"
    and r5: "p_exp sample_access_claims = Some 1700000900"
    and r6: "now_seconds 1700000000999 < 1700000900"
    by (simp_all add: sample_redis_def sample_access_token_def sample_access_claims_def
          now_seconds_def)
  have a: "isTokenBlacklisted sample_sha
     (addToBlacklist sample_sha sample_redis sample_access_token 1700000000999)
     sample_access_token 1700000900998"
    using blacklist_until_expiry [where st = sample_redis and token = sample_access_token
        and r = "\<lparr>rd_failing = False, rd_store = Map.empty\<rparr>" and d = sample_access_claims
        and x = 1700000900 and ?now0.0 = 1700000000999 and sha = sample_sha
        and t = 1700000900998]
      r1 r2 r3 r4 r5 r6
    by simp
  have b: "\<not> isTokenBlacklisted sample_sha
     (addToBlacklist sample_sha sample_redis sample_access_token 1700000000999)
     sample_access_token 1700000900999"
    using blacklist_until_expiry [where st = sample_redis and token = sample_access_token
        and r = "\<lparr>rd_failing = False, rd_store = Map.empty\<rparr>" and d = sample_access_claims
        and x = 1700000900 and ?now0.0 = 1700000000999 and sha = sample_sha
        and t = 1700000900999]
      r1 r2 r3 r4 r5 r6
    by simp
  from m m' m'' sample_calls_ok r1 r2 r4 r5 r6 a b show ?thesis by (simp add: list_all_iff)
qed

text \<open>
  C7 as stated fails on its last clause: a token with \<^verbatim>\<open>exp = 1700000900\<close> revoked at
  clock 1700000000999 is still reported blacklisted at clock 1700000900500, half a
  second after its own expiry, when \<^verbatim>\<open>verifyToken\<close> already rejects it as expired.
\<close>

theorem blacklist_until_expiry_counterexample:
  "isTokenBlacklisted sample_sha
     (addToBlacklist sample_sha sample_redis sample_access_token 1700000000999)
     sample_access_token 1700000900500 \<and>
   map_option p_exp (jwt_decode sample_access_token) = Some (Some 1700000900) \<and>
   (1700000900 * 1000 :: int) < 1700000900500 \<and>
   verifyToken sample_env sample_access_token False 1700000900500 = Inl TokenExpiredError"
  by (simp add: isTokenBlacklisted_def addToBlacklist_def redis_set_def redis_exists_def
        sample_redis_def sample_access_token_def sample_access_claims_def now_seconds_def
        Let_def verifyToken_def jwt_verify_def sample_env_def truthy_def)

section \<open>Concurrent Google logins\<close>

lemma sample_lower_new: "toLowerCase ''New@X.com'' = ''new@x.com''"
  by code_simp

lemma sample_trim: "js_trim ''Nia'' = ''Nia''"
  by code_simp

lemma concurrent_route_sample:
  "(case interleave (sample_google False ''pw-a'') (sample_google False ''pw-b'')
           [True, False, True, False, True, False] (G_find, G_find, []) of
      (a, b, db) \<Rightarrow>
        map u_email db = [''new@x.com'', ''new@x.com''] \<and> map u_id db = [1, 2] \<and>
        replied_status a = 200 \<and> replied_new a \<and> replied_status b = 200 \<and> replied_new b) \<and>
   (case interleave (sample_google True ''pw-a'') (sample_google True ''pw-b'')
           [True, False, True, False, True, False] (G_find, G_find, []) of
      (a, b, db) \<Rightarrow>
        map u_email db = [''new@x.com''] \<and>
        replied_status a = 200 \<and> replied_new a \<and> replied_status b = 500) \<and>
   (case interleave (sample_google False ''pw-a'') (sample_google False ''pw-b'')
           [True, True, True, False, False, False] (G_find, G_find, []) of
      (a, b, db) \<Rightarrow>
        map u_email db = [''new@x.com''] \<and>
        replied_status a = 200 \<and> replied_new a \<and> replied_status b = 200 \<and> \<not> replied_new b)"
  by (simp add: sample_google_def google_step_def sample_payload_def truthy_def
        sample_lower_new findOne_email_def insert_user_def fresh_id_def js_or_def
        generateTokens_def jwt_sign_def sample_env_def findByIdAndUpdate_def save_def
        Let_def)

lemma concurrent_googleLogin_sample:
  "(case interleave (sample_googleLogin False ''pw-a'') (sample_googleLogin False ''pw-b'')
           [True, False, True, False, True, False, True, False, True, False]
           (L_find, L_find, []) of
      (a, b, db) \<Rightarrow>
        map u_email db = [''new@x.com'', ''new@x.com''] \<and> map u_id db = [1, 2] \<and>
        returned a \<and> returned_new a \<and> returned b \<and> returned_new b) \<and>
   (case interleave (sample_googleLogin True ''pw-a'') (sample_googleLogin True ''pw-b'')
           [True, False, True, False, True, False, True, False, True, False]
           (L_find, L_find, []) of
      (a, b, db) \<Rightarrow>
        map u_email db = [''new@x.com''] \<and> returned a \<and> returned_new a \<and> thrown b) \<and>
   (case interleave (sample_googleLogin False ''pw-a'') (sample_googleLogin False ''pw-b'')
           [True, True, True, True, True, False, False, False, False, False]
           (L_find, L_find, []) of
      (a, b, db) \<Rightarrow>
        map u_email db = [''new@x.com''] \<and>
        returned a \<and> returned_new a \<and> returned b \<and> \<not> returned_new b)"
  by (simp add: sample_googleLogin_def googleLogin_step_def googleLogin_write_def
        sample_payload_def sample_lower_new sample_trim findOne_email_def findOne_googleId_def
        insert_user_def fresh_id_def generateAccessToken_def generateRefreshToken_def
        jwt_sign_def sample_env_def truthy_def findByIdAndUpdate_def save_def Let_def)

text \<open>
  C9 fails on \<^verbatim>\<open>router.post('/google')\<close> and on \<^verbatim>\<open>googleLogin\<close>: two logins for the same
  new email whose lookups all run before either write both take the create branch.
  Without a unique index on \<^verbatim>\<open>email\<close> both succeed as a new user and the collection holds
  two users with that email; with one, the second write throws and that login fails
  (500 from the route, an exception from the helper). Run one after the other, the same
  two logins leave one user.
\<close>

theorem concurrent_google_logins_duplicate:
  "((case interleave (sample_google False ''pw-a'') (sample_google False ''pw-b'')
           [True, False, True, False, True, False] (G_find, G_find, []) of
      (a, b, db) \<Rightarrow>
        map u_email db = [''new@x.com'', ''new@x.com''] \<and> map u_id db = [1, 2] \<and>
        replied_status a = 200 \<and> replied_new a \<and> replied_status b = 200 \<and> replied_new b) \<and>
   (case interleave (sample_google True ''pw-a'') (sample_google True ''pw-b'')
           [True, False, True, False, True, False] (G_find, G_find, []) of
      (a, b, db) \<Rightarrow>
        map u_email db = [''new@x.com''] \<and>
        replied_status a = 200 \<and> replied_new a \<and> replied_status b = 500) \<and>
   (case interleave (sample_google False ''pw-a'') (sample_google False ''pw-b'')
           [True, True, True, False, False, False] (G_find, G_find, []) of
      (a, b, db) \<Rightarrow>
        map u_email db = [''new@x.com''] \<and>
        replied_status a = 200 \<and> replied_new a \<and> replied_status b = 200 \<and> \<not> replied_new b)) \<and>
   ((case interleave (sample_googleLogin False ''pw-a'') (sample_googleLogin False ''pw-b'')
           [True, False, True, False, True, False, True, False, True, False]
           (L_find, L_find, []) of
      (a, b, db) \<Rightarrow>
        map u_email db = [''new@x.com'', ''new@x.com''] \<and> map u_id db = [1, 2] \<and>
        returned a \<and> returned_new a \<and> returned b \<and> returned_new b) \<and>
   (case interleave (sample_googleLogin True ''pw-a'') (sample_googleLogin True ''pw-b'')
           [True, False, True, False, True, False, True, False, True, False]
           (L_find, L_find, []) of
      (a, b, db) \<Rightarrow>
        map u_email db = [''new@x.com''] \<and> returned a \<and> returned_new a \<and> thrown b) \<and>
   (case interleave (sample_googleLogin False ''pw-a'') (sample_googleLogin False ''pw-b'')
           [True, True, True, True, True, False, False, False, False, False]
           (L_find, L_find, []) of
      (a, b, db) \<Rightarrow>
        map u_email db = [''new@x.com''] \<and>
        returned a \<and> returned_new a \<and> returned b \<and> \<not> returned_new b))"
  using concurrent_route_sample concurrent_googleLogin_sample by (rule conjI)

end
